theory Spec2Isabelle
  imports Complex_Main "HOL-Library.AList"
begin

section \<open>JavaScript values and errors\<close>

text \<open>
  The sources are JavaScript classes. Numbers that the program only ever counts with
  (levels, prestige counts, streak days, lifetime counters) are natural numbers, XP
  amounts are integers, and the fractional multipliers are real numbers: the rounding of
  IEEE doubles is not modelled. A thrown exception is the left summand of a result.
\<close>

datatype js_error = Error string | TypeError string

section \<open>Skill\<close>

text \<open>
  The fields the constructor assigns on the instance:
  \<^verbatim>\<open>this.name, this.icon, this.type, this.level = 1, this.currentXP = 0,
  this.totalXP = 0, this.prestige = 0\<close>. The three strings are whatever the caller
  passed, \<^verbatim>\<open>undefined\<close> (\<open>None\<close>) included.
\<close>

record Skill =
  skill_name :: "string option"
  skill_icon :: "string option"
  skill_type :: "string option"
  level :: nat
  currentXP :: int
  totalXP :: int
  prestige :: nat

definition Skill_new :: "string option \<Rightarrow> string option \<Rightarrow> string option \<Rightarrow> Skill" where
  "Skill_new n i t =
     \<lparr>skill_name = n, skill_icon = i, skill_type = t,
      level = 1, currentXP = 0, totalXP = 0, prestige = 0\<rparr>"

text \<open>\<^verbatim>\<open>getXPForNextLevel\<close>: \<^verbatim>\<open>Math.floor(100 * Math.pow(this.level, 1.5))\<close>, and 0 from level 100 on.\<close>

definition getXPForNextLevel :: "Skill \<Rightarrow> int" where
  "getXPForNextLevel s =
     (if level s \<ge> 100 then 0 else \<lfloor>100 * (real (level s) powr (3 / 2))\<rfloor>)"

text \<open>\<^verbatim>\<open>getPrestigeMultiplier\<close>: \<^verbatim>\<open>1 + (this.prestige * 0.05)\<close>.\<close>

definition getPrestigeMultiplier :: "Skill \<Rightarrow> real" where
  "getPrestigeMultiplier s = 1 + (real (prestige s) * (5 / 100))"

record xp_result =
  leveledUp :: bool
  newLevel :: nat
  xpGained :: int

text \<open>
  The level-up loop of \<^verbatim>\<open>addXP\<close>:
  \<^verbatim>\<open>while (this.currentXP >= this.getXPForNextLevel() && this.level < 100)\<close>,
  carrying the locals \<^verbatim>\<open>leveledUp\<close> and \<^verbatim>\<open>newLevel\<close>.
\<close>

function addXP_loop :: "Skill \<Rightarrow> bool \<Rightarrow> nat \<Rightarrow> Skill \<times> bool \<times> nat" where
  "addXP_loop s lu nl =
     (if currentXP s \<ge> getXPForNextLevel s \<and> level s < 100
      then addXP_loop (s\<lparr>currentXP := currentXP s - getXPForNextLevel s,
                           level := level s + 1\<rparr>) True (level s + 1)
      else (s, lu, nl))"
  by pat_completeness auto
termination
  by (relation "measure (\<lambda>(s, lu, nl). 100 - level s)") auto

declare addXP_loop.simps [simp del]

definition addXP :: "Skill \<Rightarrow> int \<Rightarrow> real \<Rightarrow> Skill \<times> xp_result" where
  "addXP s xp streakBonus =
     (let prestigeMultiplier = getPrestigeMultiplier s;
          totalMultiplier = prestigeMultiplier * (1 + streakBonus);
          adjustedXP = \<lfloor>real_of_int xp * totalMultiplier\<rfloor>;
          s1 = s\<lparr>currentXP := currentXP s + adjustedXP,
                  totalXP := totalXP s + adjustedXP\<rparr>;
          (s2, lu, nl) = addXP_loop s1 False (level s1)
      in (s2, \<lparr>leveledUp = lu, newLevel = nl, xpGained = adjustedXP\<rparr>))"

subsection \<open>The method \<^verbatim>\<open>prestige()\<close> and the field \<^verbatim>\<open>prestige\<close>\<close>

record prestige_result =
  prestigeLevel :: nat
  multiplier :: real

text \<open>
  The body of the method the class declares under the name \<^verbatim>\<open>prestige\<close>, run with
  \<^verbatim>\<open>this\<close> bound to the skill.
\<close>

definition prestige_method :: "Skill \<Rightarrow> js_error + Skill \<times> prestige_result" where
  "prestige_method s =
     (if level s < 100 then Inl (Error ''Must be level 100 to prestige'')
      else let s' = s\<lparr>level := 1, currentXP := 0, prestige := prestige s + 1\<rparr>
           in Inr (s', \<lparr>prestigeLevel = prestige s',
                         multiplier = getPrestigeMultiplier s'\<rparr>))"

text \<open>
  A class body puts its methods on the prototype; the constructor's assignments create
  own properties of the instance. Reading \<^verbatim>\<open>skill.key\<close> finds an own property before
  it looks at the prototype, and calling a value that is not a function throws a
  TypeError. The constructor assigns \<^verbatim>\<open>this.prestige = 0\<close>, and the class declares a
  method of the same name.
\<close>

datatype property = DataProperty | MethodProperty | Undefined

definition Skill_own_properties :: "string list" where
  "Skill_own_properties =
     [''name'', ''icon'', ''type'', ''level'', ''currentXP'', ''totalXP'', ''prestige'']"

definition Skill_prototype_methods :: "string list" where
  "Skill_prototype_methods =
     [''getTier'', ''getXPForNextLevel'', ''getPrestigeMultiplier'', ''addXP'',
      ''prestige'', ''getProgressPercentage'', ''toJSON'']"

definition Skill_get :: "string \<Rightarrow> property" where
  "Skill_get key =
     (if key \<in> set Skill_own_properties then DataProperty
      else if key \<in> set Skill_prototype_methods then MethodProperty
      else Undefined)"

text \<open>The expression \<^verbatim>\<open>skill.prestige()\<close>, as \<^verbatim>\<open>App.prestigeSkill\<close> evaluates it.\<close>

definition call_prestige :: "Skill \<Rightarrow> js_error + Skill \<times> prestige_result" where
  "call_prestige s =
     (case Skill_get ''prestige'' of
        MethodProperty \<Rightarrow> prestige_method s
      | _ \<Rightarrow> Inl (TypeError ''skill.prestige is not a function''))"

section \<open>User\<close>

text \<open>
  A point in time is a number of milliseconds; \<^verbatim>\<open>toDateString\<close> keeps the calendar
  day of it (the offset of the local time zone is taken as zero). Every
  \<^verbatim>\<open>new Date()\<close> of one call reads the same clock value \<open>now\<close>.
\<close>

type_synonym timestamp = int

definition toDateString :: "timestamp \<Rightarrow> int" where
  "toDateString t = t div 86400000"

record Streak =
  current :: nat
  longest :: nat
  lastCompleted :: "timestamp option"

record Stats =
  totalRoutinesCompleted :: nat
  totalTasksCompleted :: nat
  totalXPEarned :: int
  achievements :: "string list"

text \<open>
  \<^verbatim>\<open>skills\<close> is an object keyed by the skill type: an association list in insertion
  order, updated in place.
\<close>

record User =
  username :: string
  createdAt :: "timestamp option"
  lastActive :: "timestamp option"
  skills :: "(string \<times> Skill) list"
  streak :: Streak
  stats :: Stats

definition default_streak :: Streak where
  "default_streak = \<lparr>current = 0, longest = 0, lastCompleted = None\<rparr>"

definition default_stats :: Stats where
  "default_stats =
     \<lparr>totalRoutinesCompleted = 0, totalTasksCompleted = 0, totalXPEarned = 0,
      achievements = []\<rparr>"

text \<open>The constructor. The icons are emoji in the source; their code points stand for them.\<close>

definition User_new :: "string \<Rightarrow> timestamp \<Rightarrow> User" where
  "User_new name now =
     \<lparr>username = name, createdAt = Some now, lastActive = Some now,
      skills =
        [(''physical'', Skill_new (Some ''Physical'') (Some ''U+1F4AA'') (Some ''physical'')),
         (''mental'', Skill_new (Some ''Mental'') (Some ''U+1F9E0'') (Some ''mental'')),
         (''discipline'', Skill_new (Some ''Discipline'') (Some ''U+1F3AF'') (Some ''discipline'')),
         (''productivity'', Skill_new (Some ''Productivity'') (Some ''U+26A1'') (Some ''productivity'')),
         (''logic'', Skill_new (Some ''Logic'') (Some ''U+1F9E9'') (Some ''logic'')),
         (''coding'', Skill_new (Some ''Coding'') (Some ''U+1F4BB'') (Some ''coding''))],
      streak = default_streak, stats = default_stats\<rparr>"

record streak_tier =
  days :: nat
  bonus :: real
  tier_name :: string

definition STREAK_BONUSES :: "streak_tier list" where
  "STREAK_BONUSES =
     [\<lparr>days = 5, bonus = 5 / 100, tier_name = ''5 Day Streak''\<rparr>,
      \<lparr>days = 7, bonus = 10 / 100, tier_name = ''7 Day Streak''\<rparr>,
      \<lparr>days = 15, bonus = 15 / 100, tier_name = ''2 Week Streak''\<rparr>,
      \<lparr>days = 25, bonus = 20 / 100, tier_name = ''25 Day Streak''\<rparr>,
      \<lparr>days = 50, bonus = 30 / 100, tier_name = ''50 Day Streak''\<rparr>,
      \<lparr>days = 100, bonus = 50 / 100, tier_name = ''100 Day Streak''\<rparr>]"

text \<open>
  \<^verbatim>\<open>getStreakBonus\<close>: the loop over the table overwrites \<^verbatim>\<open>bonus\<close> at every tier the
  streak reaches.
\<close>

definition getStreakBonus :: "User \<Rightarrow> real" where
  "getStreakBonus u =
     fold (\<lambda>tier b. if current (streak u) \<ge> days tier then bonus tier else b)
       STREAK_BONUSES 0"

text \<open>\<^verbatim>\<open>updateStreak\<close> returns the resulting current streak and the mutated user.\<close>

definition updateStreak :: "timestamp \<Rightarrow> User \<Rightarrow> nat \<times> User" where
  "updateStreak now u =
     (let today = toDateString now;
          lastDay = map_option toDateString (lastCompleted (streak u));
          cur = (case lastDay of
                   None \<Rightarrow> 1
                 | Some d \<Rightarrow>
                     if d \<noteq> today
                     then (let yesterday = today - 1
                           in if d = yesterday then current (streak u) + 1 else 1)
                     else current (streak u));
          lng = (if cur > longest (streak u) then cur else longest (streak u))
      in (cur, u\<lparr>streak := \<lparr>current = cur, longest = lng, lastCompleted = Some now\<rparr>\<rparr>))"

record skill_xp_result = xp_result +
  skill :: string
  streakBonus :: real

text \<open>
  \<^verbatim>\<open>addSkillXP\<close>: \<open>None\<close> is the \<^verbatim>\<open>null\<close> returned for an unknown skill type. (A
  skill type is taken not to be the name of a member of \<^verbatim>\<open>Object.prototype\<close>, which
  \<^verbatim>\<open>this.skills[skillType]\<close> would find.)
\<close>

definition addSkillXP ::
  "timestamp \<Rightarrow> string \<Rightarrow> int \<Rightarrow> User \<Rightarrow> skill_xp_result option \<times> User" where
  "addSkillXP now skillType xp u =
     (case map_of (skills u) skillType of
        None \<Rightarrow> (None, u)
      | Some sk \<Rightarrow>
          let sBonus = getStreakBonus u;
              (sk', result) = addXP sk xp sBonus;
              u' = u\<lparr>skills := AList.update skillType sk' (skills u),
                     stats := (stats u)\<lparr>totalXPEarned :=
                                totalXPEarned (stats u) + xpGained result\<rparr>,
                     lastActive := Some now\<rparr>
          in (Some \<lparr>leveledUp = leveledUp result, newLevel = newLevel result,
                     xpGained = xpGained result, skill = skillType,
                     streakBonus = sBonus\<rparr>, u'))"

text \<open>\<^verbatim>\<open>addRoutineRewards\<close>: the loop over \<^verbatim>\<open>Object.entries(skillRewards)\<close>.\<close>

fun addRoutineRewards ::
  "timestamp \<Rightarrow> (string \<times> int) list \<Rightarrow> User \<Rightarrow> skill_xp_result list \<times> User" where
  "addRoutineRewards now [] u = ([], u)"
| "addRoutineRewards now ((skillType, xp) # rest) u =
     (let (result, u1) = addSkillXP now skillType xp u;
          (results, u2) = addRoutineRewards now rest u1
      in (case result of None \<Rightarrow> results | Some r \<Rightarrow> r # results, u2))"

definition completeTask :: "timestamp \<Rightarrow> User \<Rightarrow> User" where
  "completeTask now u =
     u\<lparr>stats := (stats u)\<lparr>totalTasksCompleted := totalTasksCompleted (stats u) + 1\<rparr>,
       lastActive := Some now\<rparr>"

definition completeRoutine :: "timestamp \<Rightarrow> User \<Rightarrow> User" where
  "completeRoutine now u =
     (let u1 = u\<lparr>stats := (stats u)\<lparr>totalRoutinesCompleted :=
                                totalRoutinesCompleted (stats u) + 1\<rparr>\<rparr>;
          u2 = snd (updateStreak now u1)
      in u2\<lparr>lastActive := Some now\<rparr>)"

definition unlockAchievement :: "string \<Rightarrow> User \<Rightarrow> bool \<times> User" where
  "unlockAchievement achievementId u =
     (if achievementId \<notin> set (achievements (stats u))
      then (True, u\<lparr>stats := (stats u)\<lparr>achievements :=
                                 achievements (stats u) @ [achievementId]\<rparr>\<rparr>)
      else (False, u))"

subsection \<open>Restoring a user from a snapshot\<close>

text \<open>
  A snapshot is parsed JSON: any key may be missing (\<open>None\<close>). \<^verbatim>\<open>x || d\<close> takes the
  default \<^verbatim>\<open>d\<close> when \<^verbatim>\<open>x\<close> is missing or 0.
\<close>

record Skill_json =
  json_name :: "string option"
  json_icon :: "string option"
  json_type :: "string option"
  json_level :: "nat option"
  json_currentXP :: "int option"
  json_totalXP :: "int option"
  json_prestige :: "nat option"

definition Skill_fromJSON :: "Skill_json \<Rightarrow> Skill" where
  "Skill_fromJSON data =
     (Skill_new (json_name data) (json_icon data) (json_type data))
       \<lparr>level := (case json_level data of None \<Rightarrow> 1 | Some l \<Rightarrow> if l = 0 then 1 else l),
        currentXP := (case json_currentXP data of None \<Rightarrow> 0 | Some x \<Rightarrow> x),
        totalXP := (case json_totalXP data of None \<Rightarrow> 0 | Some x \<Rightarrow> x),
        prestige := (case json_prestige data of None \<Rightarrow> 0 | Some x \<Rightarrow> x)\<rparr>"

record User_json =
  json_username :: "string option"
  json_createdAt :: "timestamp option"
  json_lastActive :: "timestamp option"
  json_skills :: "(string \<times> Skill_json) list option"
  json_streak :: "Streak option"
  json_stats :: "Stats option"

text \<open>
  \<^verbatim>\<open>User.fromJSON\<close>. \<^verbatim>\<open>new User(data.username)\<close> takes the default parameter
  \<^verbatim>\<open>'Hunter'\<close> for a missing name; \<^verbatim>\<open>Object.entries(data.skills)\<close> throws a TypeError
  when \<^verbatim>\<open>data.skills\<close> is missing; \<^verbatim>\<open>streak\<close> and \<^verbatim>\<open>stats\<close> have \<^verbatim>\<open>||\<close> defaults.
\<close>

definition User_fromJSON :: "timestamp \<Rightarrow> User_json \<Rightarrow> js_error + User" where
  "User_fromJSON now data =
     (let user = User_new (case json_username data of None \<Rightarrow> ''Hunter'' | Some n \<Rightarrow> n) now;
          user = user\<lparr>createdAt := json_createdAt data, lastActive := json_lastActive data\<rparr>
      in case json_skills data of
           None \<Rightarrow> Inl (TypeError ''Cannot convert undefined or null to object'')
         | Some entries \<Rightarrow>
             Inr (user\<lparr>skills := fold (\<lambda>(key, skillData). AList.update key (Skill_fromJSON skillData))
                                      entries (skills user),
                        streak := (case json_streak data of None \<Rightarrow> default_streak | Some s \<Rightarrow> s),
                        stats := (case json_stats data of None \<Rightarrow> default_stats | Some s \<Rightarrow> s)\<rparr>))"

section \<open>Routine\<close>

record Item =
  item_id :: string
  item_description :: string
  item_duration :: "nat option"
  item_skillRewards :: "(string \<times> int) list option"
  item_notes :: "string option"

record Section =
  section_id :: string
  section_name :: string
  timeRange :: string
  items :: "Item list"

record Routine =
  routine_id :: string
  routine_name :: string
  routine_description :: string
  routine_type :: string
  routine_icon :: string
  startTime :: "string option"
  totalDuration :: nat
  routine_skillRewards :: "(string \<times> int) list"
  sections :: "Section list"

text \<open>The item with its section: \<^verbatim>\<open>{...item, sectionId, sectionName}\<close>.\<close>

record Located_Item = Item +
  sectionId :: string
  sectionName :: string

definition locate :: "Section \<Rightarrow> Item \<Rightarrow> Located_Item" where
  "locate section item =
     \<lparr>item_id = item_id item, item_description = item_description item,
      item_duration = item_duration item, item_skillRewards = item_skillRewards item,
      item_notes = item_notes item, sectionId = section_id section,
      sectionName = section_name section\<rparr>"

definition getAllItems :: "Routine \<Rightarrow> Located_Item list" where
  "getAllItems r = concat (map (\<lambda>section. map (locate section) (items section)) (sections r))"

definition getTotalItemCount :: "Routine \<Rightarrow> nat" where
  "getTotalItemCount r = length (getAllItems r)"

text \<open>\<^verbatim>\<open>getItem\<close>: the first section that has an item of that id; \<open>None\<close> is \<^verbatim>\<open>null\<close>.\<close>

fun getItem_loop :: "Section list \<Rightarrow> string \<Rightarrow> Located_Item option" where
  "getItem_loop [] itemId = None"
| "getItem_loop (section # rest) itemId =
     (case find (\<lambda>i. item_id i = itemId) (items section) of
        Some item \<Rightarrow> Some (locate section item)
      | None \<Rightarrow> getItem_loop rest itemId)"

definition getItem :: "Routine \<Rightarrow> string \<Rightarrow> Located_Item option" where
  "getItem r itemId = getItem_loop (sections r) itemId"

section \<open>RoutineSession\<close>

datatype session_status = not_started | in_progress | completed

record RoutineSession =
  routineId :: string
  date :: timestamp
  startedAt :: "timestamp option"
  completedAt :: "timestamp option"
  status :: session_status
  completedItems :: "string set"
  xpEarned :: "string \<rightharpoonup> int"

definition RoutineSession_new :: "Routine \<Rightarrow> timestamp option \<Rightarrow> timestamp \<Rightarrow> RoutineSession" where
  "RoutineSession_new routine d now =
     \<lparr>routineId = routine_id routine,
      date = (case d of None \<Rightarrow> now | Some t \<Rightarrow> t),
      startedAt = None, completedAt = None, status = not_started,
      completedItems = {}, xpEarned = Map.empty\<rparr>"

definition start :: "timestamp \<Rightarrow> RoutineSession \<Rightarrow> RoutineSession" where
  "start now s =
     (if status s = not_started then s\<lparr>startedAt := Some now, status := in_progress\<rparr> else s)"

text \<open>\<^verbatim>\<open>this.xpEarned[skill] || 0\<close>: a missing entry reads as 0.\<close>

definition xp_of :: "(string \<rightharpoonup> int) \<Rightarrow> string \<Rightarrow> int" where
  "xp_of m category = (case m category of None \<Rightarrow> 0 | Some v \<Rightarrow> v)"

definition add_rewards :: "(string \<times> int) list \<Rightarrow> (string \<rightharpoonup> int) \<Rightarrow> (string \<rightharpoonup> int)" where
  "add_rewards rewards m = fold (\<lambda>(category, xp) m. m(category \<mapsto> xp_of m category + xp)) rewards m"

definition subtract_rewards :: "(string \<times> int) list \<Rightarrow> (string \<rightharpoonup> int) \<Rightarrow> (string \<rightharpoonup> int)" where
  "subtract_rewards rewards m =
     fold (\<lambda>(category, xp) m.
             let m' = m(category \<mapsto> xp_of m category - xp)
             in if xp_of m' category \<le> 0 then m'(category := None) else m')
       rewards m"

text \<open>
  \<^verbatim>\<open>completeItem\<close> and \<^verbatim>\<open>uncompleteItem\<close> of the session. The rewards are
  \<^verbatim>\<open>item.skillRewards\<close>, which an item may lack (\<open>None\<close>).
\<close>

definition RoutineSession_completeItem ::
  "timestamp \<Rightarrow> string \<Rightarrow> (string \<times> int) list option \<Rightarrow> RoutineSession \<Rightarrow> RoutineSession" where
  "RoutineSession_completeItem now itemId skillRewards s =
     (if itemId \<notin> completedItems s
      then let s1 = s\<lparr>completedItems := insert itemId (completedItems s)\<rparr>;
               s2 = (case skillRewards of
                       None \<Rightarrow> s1
                     | Some rewards \<Rightarrow> s1\<lparr>xpEarned := add_rewards rewards (xpEarned s1)\<rparr>)
           in if status s2 = not_started then start now s2 else s2
      else s)"

definition RoutineSession_uncompleteItem ::
  "string \<Rightarrow> (string \<times> int) list option \<Rightarrow> RoutineSession \<Rightarrow> RoutineSession" where
  "RoutineSession_uncompleteItem itemId skillRewards s =
     (if itemId \<in> completedItems s
      then let s1 = s\<lparr>completedItems := completedItems s - {itemId}\<rparr>
           in (case skillRewards of
                 None \<Rightarrow> s1
               | Some rewards \<Rightarrow> s1\<lparr>xpEarned := subtract_rewards rewards (xpEarned s1)\<rparr>)
      else s)"

definition isComplete :: "Routine \<Rightarrow> RoutineSession \<Rightarrow> bool" where
  "isComplete routine s = (card (completedItems s) = getTotalItemCount routine)"

definition complete :: "timestamp \<Rightarrow> RoutineSession \<Rightarrow> RoutineSession" where
  "complete now s =
     (if status s \<noteq> completed then s\<lparr>completedAt := Some now, status := completed\<rparr> else s)"

definition reset :: "RoutineSession \<Rightarrow> RoutineSession" where
  "reset s =
     s\<lparr>startedAt := None, completedAt := None, status := not_started,
       completedItems := {}, xpEarned := Map.empty\<rparr>"

text \<open>
  The persisted snapshot of a session: parsed JSON, any key of which may be missing.
  The array of completed items is kept as the set \<^verbatim>\<open>fromJSON\<close> makes of it.
\<close>

record RoutineSession_json =
  json_routineId :: "string option"
  json_date :: "timestamp option"
  json_startedAt :: "timestamp option"
  json_completedAt :: "timestamp option"
  json_status :: "session_status option"
  json_completedItems :: "string set option"
  json_xpEarned :: "(string \<rightharpoonup> int) option"

definition RoutineSession_toJSON :: "RoutineSession \<Rightarrow> RoutineSession_json" where
  "RoutineSession_toJSON s =
     \<lparr>json_routineId = Some (routineId s), json_date = Some (date s),
      json_startedAt = startedAt s, json_completedAt = completedAt s,
      json_status = Some (status s), json_completedItems = Some (completedItems s),
      json_xpEarned = Some (xpEarned s)\<rparr>"

definition RoutineSession_fromJSON ::
  "RoutineSession_json \<Rightarrow> Routine \<Rightarrow> timestamp \<Rightarrow> RoutineSession" where
  "RoutineSession_fromJSON data routine now =
     (RoutineSession_new routine (json_date data) now)
       \<lparr>startedAt := json_startedAt data,
        completedAt := json_completedAt data,
        status := (case json_status data of None \<Rightarrow> not_started | Some st \<Rightarrow> st),
        completedItems := (case json_completedItems data of None \<Rightarrow> {} | Some xs \<Rightarrow> xs),
        xpEarned := (case json_xpEarned data of None \<Rightarrow> Map.empty | Some m \<Rightarrow> m)\<rparr>"

section \<open>RoutineManager\<close>

text \<open>
  Sessions are objects that the manager's cache refers to and that the methods mutate
  in place: \<open>store\<close> holds the session objects by address, \<open>sessions\<close> maps a key
  (the routine id and the calendar day, for the string
  \<^verbatim>\<open>`${routineId}_${dateStr}`\<close>) to an address, and \<open>localStorage\<close> is the persisted
  \<^verbatim>\<open>rutina_sessions\<close> object of the storage manager.
\<close>

type_synonym session_key = "string \<times> int"

record RoutineManager =
  routines :: "string \<rightharpoonup> Routine"
  sessions :: "session_key \<rightharpoonup> nat"
  store :: "RoutineSession list"
  localStorage :: "session_key \<rightharpoonup> RoutineSession_json"

definition getRoutine :: "RoutineManager \<Rightarrow> string \<Rightarrow> Routine option" where
  "getRoutine m rid = routines m rid"

definition loadSessionLocal ::
  "RoutineManager \<Rightarrow> string \<Rightarrow> timestamp option \<Rightarrow> timestamp \<Rightarrow> RoutineSession_json option" where
  "loadSessionLocal m rid d now =
     localStorage m (rid, toDateString (case d of None \<Rightarrow> now | Some t \<Rightarrow> t))"

definition saveSessionLocal ::
  "RoutineManager \<Rightarrow> string \<Rightarrow> RoutineSession \<Rightarrow> timestamp \<Rightarrow> RoutineManager" where
  "saveSessionLocal m rid s now =
     m\<lparr>localStorage := (localStorage m)((rid, toDateString now) \<mapsto> RoutineSession_toJSON s)\<rparr>"

text \<open>
  \<^verbatim>\<open>getSession\<close> returns the address of the session object: the cached one, else one
  rebuilt from the snapshot, else a new one. It throws for an unknown routine.
\<close>

definition getSession ::
  "RoutineManager \<Rightarrow> string \<Rightarrow> timestamp option \<Rightarrow> timestamp \<Rightarrow> js_error + nat \<times> RoutineManager" where
  "getSession m rid d now =
     (case getRoutine m rid of
        None \<Rightarrow> Inl (Error (''Routine '' @ rid @ '' not found''))
      | Some routine \<Rightarrow>
          let sessionKey = (rid, toDateString (case d of None \<Rightarrow> now | Some t \<Rightarrow> t))
          in case sessions m sessionKey of
               Some a \<Rightarrow> Inr (a, m)
             | None \<Rightarrow>
                 (case loadSessionLocal m rid d now of
                    Some savedSession \<Rightarrow>
                      Inr (length (store m),
                           m\<lparr>sessions := (sessions m)(sessionKey \<mapsto> length (store m)),
                             store := store m @ [RoutineSession_fromJSON savedSession routine now]\<rparr>)
                  | None \<Rightarrow>
                      Inr (length (store m),
                           m\<lparr>sessions := (sessions m)(sessionKey \<mapsto> length (store m)),
                             store := store m @ [RoutineSession_new routine d now]\<rparr>)))"

text \<open>\<^verbatim>\<open>saveSession\<close>, given the address of the session object.\<close>

definition saveSession :: "RoutineManager \<Rightarrow> string \<Rightarrow> nat \<Rightarrow> timestamp \<Rightarrow> RoutineManager" where
  "saveSession m rid a now =
     (let session = store m ! a;
          sessionKey = (rid, toDateString (date session));
          m1 = m\<lparr>sessions := (sessions m)(sessionKey \<mapsto> a)\<rparr>
      in saveSessionLocal m1 rid session now)"

record complete_result =
  result_item :: Located_Item
  xpResults :: "skill_xp_result list"
  result_session :: nat
  isRoutineComplete :: bool

text \<open>
  \<^verbatim>\<open>RoutineManager.completeItem\<close>. \<^verbatim>\<open>routine.getItem\<close> on a missing routine is never
  reached: \<^verbatim>\<open>getSession\<close> has thrown before. \<open>None\<close> is the \<^verbatim>\<open>null\<close> result.
\<close>

definition RoutineManager_completeItem ::
  "timestamp \<Rightarrow> RoutineManager \<Rightarrow> string \<Rightarrow> string \<Rightarrow> User
     \<Rightarrow> js_error + complete_result option \<times> RoutineManager \<times> User" where
  "RoutineManager_completeItem now m rid itemId user =
     (case getSession m rid None now of
        Inl e \<Rightarrow> Inl e
      | Inr (a, m1) \<Rightarrow>
          (case getRoutine m rid of
             None \<Rightarrow> Inl (TypeError ''Cannot read properties of undefined'')
           | Some routine \<Rightarrow>
               (case getItem routine itemId of
                  None \<Rightarrow> Inr (None, m1, user)
                | Some item \<Rightarrow>
                    let s1 = RoutineSession_completeItem now itemId (item_skillRewards item) (store m1 ! a);
                        (results, u1) = addRoutineRewards now
                           (case item_skillRewards item of None \<Rightarrow> [] | Some rw \<Rightarrow> rw) user;
                        u2 = completeTask now u1;
                        (s2, u3) = (if isComplete routine s1
                                    then (complete now s1, completeRoutine now u2)
                                    else (s1, u2));
                        m2 = saveSession (m1\<lparr>store := (store m1)[a := s2]\<rparr>) rid a now
                    in Inr (Some \<lparr>result_item = item, xpResults = results, result_session = a,
                                   isRoutineComplete = isComplete routine s2\<rparr>, m2, u3))))"

record uncomplete_result =
  unc_item :: Located_Item
  unc_session :: nat

definition RoutineManager_uncompleteItem ::
  "timestamp \<Rightarrow> RoutineManager \<Rightarrow> string \<Rightarrow> string
     \<Rightarrow> js_error + uncomplete_result option \<times> RoutineManager" where
  "RoutineManager_uncompleteItem now m rid itemId =
     (case getSession m rid None now of
        Inl e \<Rightarrow> Inl e
      | Inr (a, m1) \<Rightarrow>
          (case getRoutine m rid of
             None \<Rightarrow> Inl (TypeError ''Cannot read properties of undefined'')
           | Some routine \<Rightarrow>
               (case getItem routine itemId of
                  None \<Rightarrow> Inr (None, m1)
                | Some item \<Rightarrow>
                    let s1 = RoutineSession_uncompleteItem itemId (item_skillRewards item) (store m1 ! a);
                        m2 = saveSession (m1\<lparr>store := (store m1)[a := s1]\<rparr>) rid a now
                    in Inr (Some \<lparr>unc_item = item, unc_session = a\<rparr>, m2))))"


section \<open>Achievements\<close>

text \<open>
  An entry of the catalog \<^verbatim>\<open>ACHIEVEMENTS\<close>: its \<^verbatim>\<open>condition\<close> is a closure over the
  user. \<^verbatim>\<open>Object.values(user.skills).some\<close> and \<^verbatim>\<open>.every\<close> are \<open>list_ex\<close> and
  \<open>list_all\<close> over the skills. The icons are emoji in the source; their code points
  stand for them.
\<close>

record achievement_data =
  ach_id :: string
  ach_name :: string
  ach_description :: string
  ach_icon :: string
  condition :: "User \<Rightarrow> bool"

record Achievement = achievement_data +
  unlockedAt :: "timestamp option"

definition ACHIEVEMENTS :: "achievement_data list" where
  "ACHIEVEMENTS =
     [
      \<lparr>ach_id = ''first-routine'', ach_name = ''First Steps'',
       ach_description = ''Complete your first routine'', ach_icon = ''U+1F3AF'',
       condition = (\<lambda>user. totalRoutinesCompleted (stats user) \<ge> 1)\<rparr>,
      \<lparr>ach_id = ''first-task'', ach_name = ''Getting Started'',
       ach_description = ''Complete your first task'', ach_icon = ''U+2705'',
       condition = (\<lambda>user. totalTasksCompleted (stats user) \<ge> 1)\<rparr>,
      \<lparr>ach_id = ''streak-5'', ach_name = ''Consistent'',
       ach_description = ''Maintain a 5-day streak'', ach_icon = ''U+1F525'',
       condition = (\<lambda>user. current (streak user) \<ge> 5)\<rparr>,
      \<lparr>ach_id = ''streak-7'', ach_name = ''Week Warrior'',
       ach_description = ''Maintain a 7-day streak'', ach_icon = ''U+1F525'',
       condition = (\<lambda>user. current (streak user) \<ge> 7)\<rparr>,
      \<lparr>ach_id = ''streak-15'', ach_name = ''Two Weeks Strong'',
       ach_description = ''Maintain a 15-day streak'', ach_icon = ''U+1F525 U+1F525'',
       condition = (\<lambda>user. current (streak user) \<ge> 15)\<rparr>,
      \<lparr>ach_id = ''streak-25'', ach_name = ''Dedicated'',
       ach_description = ''Maintain a 25-day streak'', ach_icon = ''U+1F525 U+1F525'',
       condition = (\<lambda>user. current (streak user) \<ge> 25)\<rparr>,
      \<lparr>ach_id = ''streak-100'', ach_name = ''Unstoppable'',
       ach_description = ''Maintain a 100-day streak'', ach_icon = ''U+1F525 U+1F525 U+1F525'',
       condition = (\<lambda>user. current (streak user) \<ge> 100)\<rparr>,
      \<lparr>ach_id = ''streak-1000'', ach_name = ''Legend'',
       ach_description = ''Maintain a 1000-day streak'', ach_icon = ''U+1F525 U+1F525 U+1F525 U+1F525 U+1F525'',
       condition = (\<lambda>user. current (streak user) \<ge> 1000)\<rparr>,
      \<lparr>ach_id = ''routine-10'', ach_name = ''Building Habits'',
       ach_description = ''Complete 10 routines'', ach_icon = ''U+1F4C8'',
       condition = (\<lambda>user. totalRoutinesCompleted (stats user) \<ge> 10)\<rparr>,
      \<lparr>ach_id = ''routine-25'', ach_name = ''Habit Master'',
       ach_description = ''Complete 25 routines'', ach_icon = ''U+1F4C8'',
       condition = (\<lambda>user. totalRoutinesCompleted (stats user) \<ge> 25)\<rparr>,
      \<lparr>ach_id = ''routine-50'', ach_name = ''Routine Expert'',
       ach_description = ''Complete 50 routines'', ach_icon = ''U+1F3C6'',
       condition = (\<lambda>user. totalRoutinesCompleted (stats user) \<ge> 50)\<rparr>,
      \<lparr>ach_id = ''routine-100'', ach_name = ''Century'',
       ach_description = ''Complete 100 routines'', ach_icon = ''U+1F3C6'',
       condition = (\<lambda>user. totalRoutinesCompleted (stats user) \<ge> 100)\<rparr>,
      \<lparr>ach_id = ''skill-level-10'', ach_name = ''Novice'',
       ach_description = ''Reach level 10 in any skill'', ach_icon = ''U+2B50'',
       condition = (\<lambda>user. list_ex (\<lambda>s. level s \<ge> 10) (map snd (skills user)))\<rparr>,
      \<lparr>ach_id = ''skill-level-25'', ach_name = ''Skilled'',
       ach_description = ''Reach level 25 in any skill'', ach_icon = ''U+2B50 U+2B50'',
       condition = (\<lambda>user. list_ex (\<lambda>s. level s \<ge> 25) (map snd (skills user)))\<rparr>,
      \<lparr>ach_id = ''skill-level-50'', ach_name = ''Advanced'',
       ach_description = ''Reach level 50 in any skill'', ach_icon = ''U+2B50 U+2B50 U+2B50'',
       condition = (\<lambda>user. list_ex (\<lambda>s. level s \<ge> 50) (map snd (skills user)))\<rparr>,
      \<lparr>ach_id = ''skill-level-75'', ach_name = ''Expert'',
       ach_description = ''Reach level 75 in any skill'', ach_icon = ''U+1F31F'',
       condition = (\<lambda>user. list_ex (\<lambda>s. level s \<ge> 75) (map snd (skills user)))\<rparr>,
      \<lparr>ach_id = ''skill-level-100'', ach_name = ''Mastery'',
       ach_description = ''Reach level 100 in any skill'', ach_icon = ''U+1F48E'',
       condition = (\<lambda>user. list_ex (\<lambda>s. level s \<ge> 100) (map snd (skills user)))\<rparr>,
      \<lparr>ach_id = ''all-skills-10'', ach_name = ''Well Rounded'',
       ach_description = ''Reach level 10 in all skills'', ach_icon = ''U+1F3AF'',
       condition = (\<lambda>user. list_all (\<lambda>s. level s \<ge> 10) (map snd (skills user)))\<rparr>,
      \<lparr>ach_id = ''all-skills-25'', ach_name = ''Balanced'',
       ach_description = ''Reach level 25 in all skills'', ach_icon = ''U+2696 U+FE0F'',
       condition = (\<lambda>user. list_all (\<lambda>s. level s \<ge> 25) (map snd (skills user)))\<rparr>,
      \<lparr>ach_id = ''all-skills-50'', ach_name = ''Renaissance'',
       ach_description = ''Reach level 50 in all skills'', ach_icon = ''U+1F451'',
       condition = (\<lambda>user. list_all (\<lambda>s. level s \<ge> 50) (map snd (skills user)))\<rparr>,
      \<lparr>ach_id = ''first-prestige'', ach_name = ''New Game+'',
       ach_description = ''Prestige a skill for the first time'', ach_icon = ''U+1F320'',
       condition = (\<lambda>user. list_ex (\<lambda>s. prestige s \<ge> 1) (map snd (skills user)))\<rparr>,
      \<lparr>ach_id = ''prestige-5'', ach_name = ''Eternal Student'',
       ach_description = ''Reach prestige 5 in any skill'', ach_icon = ''U+267E U+FE0F'',
       condition = (\<lambda>user. list_ex (\<lambda>s. prestige s \<ge> 5) (map snd (skills user)))\<rparr>,
      \<lparr>ach_id = ''xp-1000'', ach_name = ''XP Collector'',
       ach_description = ''Earn 1,000 total XP'', ach_icon = ''U+1F4AB'',
       condition = (\<lambda>user. totalXPEarned (stats user) \<ge> 1000)\<rparr>,
      \<lparr>ach_id = ''xp-10000'', ach_name = ''XP Hoarder'',
       ach_description = ''Earn 10,000 total XP'', ach_icon = ''U+2728'',
       condition = (\<lambda>user. totalXPEarned (stats user) \<ge> 10000)\<rparr>,
      \<lparr>ach_id = ''xp-50000'', ach_name = ''XP Master'',
       ach_description = ''Earn 50,000 total XP'', ach_icon = ''U+1F31F'',
       condition = (\<lambda>user. totalXPEarned (stats user) \<ge> 50000)\<rparr>,
      \<lparr>ach_id = ''tasks-100'', ach_name = ''Task Warrior'',
       ach_description = ''Complete 100 tasks'', ach_icon = ''U+2694 U+FE0F'',
       condition = (\<lambda>user. totalTasksCompleted (stats user) \<ge> 100)\<rparr>,
      \<lparr>ach_id = ''tasks-500'', ach_name = ''Task Champion'',
       ach_description = ''Complete 500 tasks'', ach_icon = ''U+1F3C5'',
       condition = (\<lambda>user. totalTasksCompleted (stats user) \<ge> 500)\<rparr>,
      \<lparr>ach_id = ''tasks-1000'', ach_name = ''Task Legend'',
       ach_description = ''Complete 1,000 tasks'', ach_icon = ''U+1F451'',
       condition = (\<lambda>user. totalTasksCompleted (stats user) \<ge> 1000)\<rparr>]"

definition Achievement_new :: "achievement_data \<Rightarrow> Achievement" where
  "Achievement_new data =
     \<lparr>ach_id = ach_id data, ach_name = ach_name data,
      ach_description = ach_description data, ach_icon = ach_icon data,
      condition = condition data, unlockedAt = None\<rparr>"

definition isUnlocked :: "Achievement \<Rightarrow> bool" where
  "isUnlocked a = (unlockedAt a \<noteq> None)"

definition unlock :: "timestamp \<Rightarrow> Achievement \<Rightarrow> bool \<times> Achievement" where
  "unlock now a =
     (if \<not> isUnlocked a then (True, a\<lparr>unlockedAt := Some now\<rparr>) else (False, a))"

text \<open>
  The manager's \<^verbatim>\<open>achievements\<close> is a \<^verbatim>\<open>Map\<close> from id to achievement: an association
  list in insertion order, where \<^verbatim>\<open>set\<close> replaces the value of a key it already has.
\<close>

type_synonym AchievementManager = "(string \<times> Achievement) list"

definition initializeAchievements :: AchievementManager where
  "initializeAchievements =
     fold (\<lambda>data. AList.update (ach_id data) (Achievement_new data)) ACHIEVEMENTS []"

text \<open>
  \<^verbatim>\<open>checkAchievements\<close>: the loop over \<^verbatim>\<open>this.achievements.values()\<close>. It returns the
  newly unlocked achievements, the manager and the user.
\<close>

fun checkAchievements ::
  "timestamp \<Rightarrow> AchievementManager \<Rightarrow> User \<Rightarrow> Achievement list \<times> AchievementManager \<times> User" where
  "checkAchievements now [] user = ([], [], user)"
| "checkAchievements now ((k, achievement) # rest) user =
     (if isUnlocked achievement
      then (let (newlyUnlocked, rest', user') = checkAchievements now rest user
            in (newlyUnlocked, (k, achievement) # rest', user'))
      else if condition achievement user
      then (let achievement' = snd (unlock now achievement);
                user1 = snd (unlockAchievement (ach_id achievement') user);
                (newlyUnlocked, rest', user') = checkAchievements now rest user1
            in (achievement' # newlyUnlocked, (k, achievement') # rest', user'))
      else (let (newlyUnlocked, rest', user') = checkAchievements now rest user
            in (newlyUnlocked, (k, achievement) # rest', user')))"

definition restoreUnlocked :: "timestamp \<Rightarrow> string list \<Rightarrow> AchievementManager \<Rightarrow> AchievementManager" where
  "restoreUnlocked now unlockedIds am =
     fold (\<lambda>i am. case map_of am i of
                     Some achievement \<Rightarrow>
                       if \<not> isUnlocked achievement
                       then AList.update i (snd (unlock now achievement)) am
                       else am
                   | None \<Rightarrow> am)
       unlockedIds am"

section \<open>Sequences of operations\<close>

text \<open>The operations that change a user: the mutating methods of the class \<^verbatim>\<open>User\<close>.\<close>

datatype user_op =
    UpdateStreak timestamp
  | AddSkillXP timestamp string int
  | AddRoutineRewards timestamp "(string \<times> int) list"
  | CompleteTask timestamp
  | CompleteRoutine timestamp
  | UnlockAchievement string

fun apply_user_op :: "user_op \<Rightarrow> User \<Rightarrow> User" where
  "apply_user_op (UpdateStreak now) u = snd (updateStreak now u)"
| "apply_user_op (AddSkillXP now skillType xp) u = snd (addSkillXP now skillType xp u)"
| "apply_user_op (AddRoutineRewards now rewards) u = snd (addRoutineRewards now rewards u)"
| "apply_user_op (CompleteTask now) u = completeTask now u"
| "apply_user_op (CompleteRoutine now) u = completeRoutine now u"
| "apply_user_op (UnlockAchievement i) u = snd (unlockAchievement i u)"

text \<open>The XP amounts an operation awards are not negative.\<close>

fun nonneg_op :: "user_op \<Rightarrow> bool" where
  "nonneg_op (AddSkillXP now skillType xp) = (0 \<le> xp)"
| "nonneg_op (AddRoutineRewards now rewards) = list_all (\<lambda>(k, xp). 0 \<le> xp) rewards"
| "nonneg_op _ = True"

text \<open>The operations on an achievement manager.\<close>

datatype manager_op = Check timestamp User | Restore timestamp "string list"

fun apply_manager_op :: "manager_op \<Rightarrow> AchievementManager \<Rightarrow> AchievementManager" where
  "apply_manager_op (Check now user) am = fst (snd (checkAchievements now am user))"
| "apply_manager_op (Restore now ids) am = restoreUnlocked now ids am"

section \<open>An integer square root\<close>

text \<open>It makes the XP curve computable: see \<open>getXPForNextLevel_code\<close> below.\<close>

definition isqrt_step :: "nat \<Rightarrow> nat \<Rightarrow> nat" where
  "isqrt_step n r = (if (r + 1) * (r + 1) \<le> n then r + 1 else r)"

fun isqrt :: "nat \<Rightarrow> nat" where
  "isqrt n = (if n = 0 then 0 else isqrt_step n (2 * isqrt (n div 4)))"

declare isqrt.simps [simp del]

section \<open>Concrete values\<close>

text \<open>A user with a given streak record, and a snapshot that lacks the key \<^verbatim>\<open>skills\<close>.\<close>

definition streak_user :: "nat \<Rightarrow> nat \<Rightarrow> timestamp option \<Rightarrow> User" where
  "streak_user c l t =
     (User_new ''Hunter'' 0)\<lparr>streak := \<lparr>current = c, longest = l, lastCompleted = t\<rparr>\<rparr>"

definition snapshot_without_skills :: User_json where
  "snapshot_without_skills =
     \<lparr>json_username = Some ''Hunter'', json_createdAt = Some 0, json_lastActive = Some 0,
      json_skills = None,
      json_streak = Some \<lparr>current = 3, longest = 4, lastCompleted = Some 0\<rparr>,
      json_stats = Some \<lparr>totalRoutinesCompleted = 3, totalTasksCompleted = 12,
                          totalXPEarned = 240, achievements = [''first-task'']\<rparr>\<rparr>"




text \<open>A morning routine of three items in two sections, and its session after the first item.\<close>

definition example_routine :: Routine where
  "example_routine =
     \<lparr>routine_id = ''morning'', routine_name = ''Morning'',
      routine_description = ''Start of the day'', routine_type = ''daily'',
      routine_icon = ''U+1F305'', startTime = Some ''06:00'', totalDuration = 30,
      routine_skillRewards = [(''discipline'', 20)],
      sections =
        [\<lparr>section_id = ''s1'', section_name = ''Wake up'', timeRange = ''06:00-06:10'',
          items =
            [\<lparr>item_id = ''wake'', item_description = ''Get up'', item_duration = Some 5,
              item_skillRewards = Some [(''discipline'', 10)], item_notes = None\<rparr>,
             \<lparr>item_id = ''stretch'', item_description = ''Stretch'', item_duration = Some 5,
              item_skillRewards = Some [(''physical'', 150), (''discipline'', 5)],
              item_notes = None\<rparr>]\<rparr>,
         \<lparr>section_id = ''s2'', section_name = ''Plan'', timeRange = ''06:10-06:30'',
          items =
            [\<lparr>item_id = ''plan'', item_description = ''Plan the day'', item_duration = None,
              item_skillRewards = None, item_notes = Some ''on paper''\<rparr>]\<rparr>]\<rparr>"

definition session_after_wake :: RoutineSession where
  "session_after_wake =
     RoutineSession_completeItem 1000 ''wake'' (Some [(''discipline'', 10)])
       (RoutineSession_new example_routine None 1000)"

text \<open>
  Every address in the manager's cache refers to a session object; a manager that has
  loaded the example routine and holds no session yet; and the same manager once the
  item \<^verbatim>\<open>wake\<close> has been completed through it.
\<close>

definition wf_manager :: "RoutineManager \<Rightarrow> bool" where
  "wf_manager m = (\<forall>k a. sessions m k = Some a \<longrightarrow> a < length (store m))"

definition example_manager :: RoutineManager where
  "example_manager =
     \<lparr>routines = [''morning'' \<mapsto> example_routine], sessions = Map.empty, store = [],
      localStorage = Map.empty\<rparr>"

definition manager_after_wake :: RoutineManager where
  "manager_after_wake =
     \<lparr>routines = [''morning'' \<mapsto> example_routine],
      sessions = [(''morning'', 0) \<mapsto> 0],
      store = [session_after_wake],
      localStorage = [(''morning'', 0) \<mapsto> RoutineSession_toJSON session_after_wake]\<rparr>"





text \<open>A user who has been awarded 1000 XP.\<close>

definition xp_1000_user :: User where
  "xp_1000_user = apply_user_op (AddSkillXP 7000 ''logic'' 1000) (User_new ''Hunter'' 0)"

section \<open>Orders and invariants for the achievement claims\<close>

text \<open>
  The streak achievements are those whose id starts with \<^verbatim>\<open>streak-\<close>. One user state is
  below another when its lifetime counters are no greater and its skills, key by key,
  have levels and prestige counts that are no greater; a condition is monotone when it
  stays true on the way up.
\<close>

definition is_streak_id :: "string \<Rightarrow> bool" where
  "is_streak_id i = (take 7 i = ''streak-'')"

definition skill_le :: "string \<times> Skill \<Rightarrow> string \<times> Skill \<Rightarrow> bool" where
  "skill_le p q =
     (fst p = fst q \<and> level (snd p) \<le> level (snd q) \<and> prestige (snd p) \<le> prestige (snd q))"

definition user_le :: "User \<Rightarrow> User \<Rightarrow> bool" where
  "user_le u u' =
     (totalRoutinesCompleted (stats u) \<le> totalRoutinesCompleted (stats u')
      \<and> totalTasksCompleted (stats u) \<le> totalTasksCompleted (stats u')
      \<and> totalXPEarned (stats u) \<le> totalXPEarned (stats u')
      \<and> list_all2 skill_le (skills u) (skills u'))"

definition monotone_condition :: "(User \<Rightarrow> bool) \<Rightarrow> bool" where
  "monotone_condition c = (\<forall>u u'. user_le u u' \<longrightarrow> c u \<longrightarrow> c u')"

text \<open>
  The manager's map has distinct keys, and every achievement is stored under its own id;
  the unlocked ids are the keys of the unlocked achievements.
\<close>

definition am_inv :: "AchievementManager \<Rightarrow> bool" where
  "am_inv am = (distinct (map fst am) \<and> (\<forall>(k, a) \<in> set am. ach_id a = k))"

definition unlocked_ids :: "AchievementManager \<Rightarrow> string set" where
  "unlocked_ids am = fst ` {p \<in> set am. isUnlocked (snd p)}"

text \<open>A user who has completed a routine on each of five consecutive days.\<close>

definition five_day_user :: User where
  "five_day_user =
     fold apply_user_op
       [CompleteRoutine 1000, CompleteRoutine (86400000 + 1000),
        CompleteRoutine (2 * 86400000 + 1000), CompleteRoutine (3 * 86400000 + 1000),
        CompleteRoutine (4 * 86400000 + 1000)]
       (User_new ''Hunter'' 0)"

section \<open>Evaluating the XP curve\<close>

lemma isqrt_0: "isqrt 0 = 0"
  by (simp add: isqrt.simps)

lemma isqrt_1: "isqrt (Suc 0) = 1"
  by (simp add: isqrt.simps isqrt_step_def)

lemma isqrt_numeral:
  "isqrt (numeral k) = isqrt_step (numeral k) (2 * isqrt (numeral k div 4))"
  by (subst isqrt.simps) simp

lemma isqrt_one: "isqrt 1 = 1"
  by (simp add: isqrt_1)

lemmas isqrt_eval = isqrt_0 isqrt_1 isqrt_one isqrt_numeral isqrt_step_def

lemma isqrt_bounds: "isqrt n * isqrt n \<le> n \<and> n < (isqrt n + 1) * (isqrt n + 1)"
proof (induction n rule: isqrt.induct)
  case (1 n)
  show ?case
  proof (cases "n = 0")
    case True
    then show ?thesis by (simp add: isqrt_0)
  next
    case False
    define q where "q = isqrt (n div 4)"
    from 1 False have IH: "q * q \<le> n div 4 \<and> n div 4 < (q + 1) * (q + 1)"
      by (simp add: q_def)
    have lo: "(2 * q) * (2 * q) \<le> n"
    proof -
      have "4 * (q * q) \<le> 4 * (n div 4)" using IH by simp
      also have "\<dots> \<le> n" by simp
      finally show ?thesis by (simp add: algebra_simps)
    qed
    have hi: "n < (2 * q + 2) * (2 * q + 2)"
    proof -
      have "n div 4 + 1 \<le> (q + 1) * (q + 1)" using IH by simp
      then have "4 * (n div 4 + 1) \<le> 4 * ((q + 1) * (q + 1))" by simp
      moreover have "n < 4 * (n div 4 + 1)" by arith
      ultimately show ?thesis by (simp add: algebra_simps)
    qed
    have eq: "isqrt n = (if (2 * q + 1) * (2 * q + 1) \<le> n then 2 * q + 1 else 2 * q)"
      using False by (subst isqrt.simps) (simp add: q_def isqrt_step_def)
    show ?thesis
    proof (cases "(2 * q + 1) * (2 * q + 1) \<le> n")
      case True
      with eq hi show ?thesis by (simp add: algebra_simps)
    next
      case False
      with eq lo show ?thesis by (simp add: algebra_simps)
    qed
  qed
qed

lemma floor_sqrt_bounds:
  assumes "v * v \<le> n" and "n < (v + 1) * (v + 1)"
  shows "\<lfloor>sqrt (real n)\<rfloor> = int v"
proof -
  have sq: "sqrt (real (w * w)) = real w" for w :: nat
    by simp
  have "sqrt (real (v * v)) \<le> sqrt (real n)"
    by (rule real_sqrt_le_mono) (use assms(1) in \<open>simp only: of_nat_le_iff\<close>)
  then have a: "real v \<le> sqrt (real n)"
    by (simp only: sq)
  have "sqrt (real n) < sqrt (real ((v + 1) * (v + 1)))"
    by (rule real_sqrt_less_mono) (use assms(2) in \<open>simp only: of_nat_less_iff\<close>)
  then have b: "sqrt (real n) < real v + 1"
    by (simp only: sq of_nat_add of_nat_1)
  show ?thesis using a b by (simp add: floor_eq_iff)
qed

lemma floor_sqrt_isqrt: "\<lfloor>sqrt (real n)\<rfloor> = int (isqrt n)"
  using isqrt_bounds [of n] by (intro floor_sqrt_bounds) simp_all

lemma powr_three_halves: "real l powr (3 / 2) = sqrt (real (l ^ 3))"
proof (cases "l = 0")
  case True
  then show ?thesis by simp
next
  case False
  then have pos: "0 < real l" by simp
  have "real l powr (3 / 2) = real l powr (3 * (1 / 2))"
    by simp
  also have "\<dots> = (real l powr 3) powr (1 / 2)"
    by (simp only: powr_powr)
  also have "real l powr 3 = real l ^ 3"
    using pos by simp
  also have "(real l ^ 3) powr (1 / 2) = sqrt (real l ^ 3)"
    by (simp add: powr_half_sqrt)
  finally show ?thesis by simp
qed

lemma xp_curve_isqrt: "\<lfloor>100 * (real l powr (3 / 2))\<rfloor> = int (isqrt (10000 * l ^ 3))"
proof -
  have "100 * sqrt (real (l ^ 3)) = sqrt (real (10000 * l ^ 3))"
    by (simp add: real_sqrt_mult)
  then show ?thesis
    by (simp only: powr_three_halves floor_sqrt_isqrt)
qed

lemma getXPForNextLevel_code:
  "getXPForNextLevel s =
     (if level s \<ge> 100 then 0 else int (isqrt (10000 * level s ^ 3)))"
  by (simp only: getXPForNextLevel_def xp_curve_isqrt)

section \<open>Skill: prestige\<close>

lemma prestige_method_at_100:
  "level s = 100 \<Longrightarrow>
     prestige_method s =
       Inr (s\<lparr>level := 1, currentXP := 0, prestige := prestige s + 1\<rparr>,
            \<lparr>prestigeLevel = prestige s + 1,
             multiplier = 1 + real (prestige s + 1) * (5 / 100)\<rparr>)"
  by (simp add: prestige_method_def getPrestigeMultiplier_def Let_def)

lemma prestige_method_below_100:
  "level s < 100 \<Longrightarrow> prestige_method s = Inl (Error ''Must be level 100 to prestige'')"
  by (simp add: prestige_method_def)

text \<open>
  C1. The claim: \<^verbatim>\<open>prestige()\<close> fails with an invalid-state error below level 100 and
  succeeds at level 100, resetting level and current XP and incrementing the prestige
  count. The body of the method does so (\<open>prestige_method_at_100\<close>,
  \<open>prestige_method_below_100\<close>), but the call \<^verbatim>\<open>skill.prestige()\<close> never reaches it:
  on every Skill instance the own property \<^verbatim>\<open>prestige\<close>, a number, shadows the method,
  and the call throws a TypeError at every level, level 100 included, leaving the skill
  as it was.
\<close>

theorem call_prestige_throws:
  "call_prestige s = Inl (TypeError ''skill.prestige is not a function'')
   \<and> call_prestige (s\<lparr>level := 100\<rparr>) \<noteq> prestige_method (s\<lparr>level := 100\<rparr>)"
  by (simp add: call_prestige_def Skill_get_def Skill_own_properties_def
        prestige_method_def Let_def)

section \<open>Skill: awarding XP\<close>

lemma addXP_loop_post:
  "addXP_loop s lu nl = (s', r) \<Longrightarrow> level s' < 100 \<Longrightarrow> currentXP s' < getXPForNextLevel s'"
proof (induction s lu nl rule: addXP_loop.induct)
  case (1 s lu nl)
  show ?case
  proof (cases "currentXP s \<ge> getXPForNextLevel s \<and> level s < 100")
    case True
    with "1.prems" have
      "addXP_loop (s\<lparr>currentXP := currentXP s - getXPForNextLevel s, level := level s + 1\<rparr>)
         True (level s + 1) = (s', r)"
      by (subst (asm) addXP_loop.simps) simp
    with True "1.IH" "1.prems"(2) show ?thesis by blast
  next
    case False
    with "1.prems" have "s' = s"
      by (subst (asm) addXP_loop.simps) simp
    with False "1.prems"(2) show ?thesis by auto
  qed
qed

lemma addXP_post:
  "level (fst (addXP s xp b)) < 100 \<Longrightarrow>
     currentXP (fst (addXP s xp b)) < getXPForNextLevel (fst (addXP s xp b))"
proof -
  define s1 where
    "s1 = s\<lparr>currentXP := currentXP s + \<lfloor>real_of_int xp * (getPrestigeMultiplier s * (1 + b))\<rfloor>,
            totalXP := totalXP s + \<lfloor>real_of_int xp * (getPrestigeMultiplier s * (1 + b))\<rfloor>\<rparr>"
  obtain s' r where L: "addXP_loop s1 False (level s1) = (s', r)"
    by (cases "addXP_loop s1 False (level s1)")
  then have "fst (addXP s xp b) = s'"
    by (simp add: addXP_def Let_def s1_def split: prod.splits)
  moreover assume "level (fst (addXP s xp b)) < 100"
  ultimately show ?thesis
    using addXP_loop_post [OF L] by simp
qed

lemma addXP_1000:
  "addXP (Skill_new n i t) 1000 0 =
     (\<lparr>skill_name = n, skill_icon = i, skill_type = t,
       level = 4, currentXP = 99, totalXP = 1000, prestige = 0\<rparr>,
      \<lparr>leveledUp = True, newLevel = 4, xpGained = 1000\<rparr>)"
  by (simp add: addXP_def Skill_new_def getPrestigeMultiplier_def Let_def
        addXP_loop.simps getXPForNextLevel_code isqrt_eval del: One_nat_def)

lemma addXP_150:
  "addXP (Skill_new n i t) 150 0 =
     (\<lparr>skill_name = n, skill_icon = i, skill_type = t,
       level = 2, currentXP = 50, totalXP = 150, prestige = 0\<rparr>,
      \<lparr>leveledUp = True, newLevel = 2, xpGained = 150\<rparr>)"
  by (simp add: addXP_def Skill_new_def getPrestigeMultiplier_def Let_def
        addXP_loop.simps getXPForNextLevel_code isqrt_eval del: One_nat_def)

text \<open>
  C2, as amended. After \<^verbatim>\<open>addXP\<close> returns, \<open>currentXP < getXPForNextLevel\<close> holds
  whenever the level is below 100, for every skill, raw XP and bonus; and one call
  crosses several thresholds in cascade: a new skill (level 1, no XP, no prestige)
  awarded 1000 raw XP with no streak bonus pays 100, 282 and 519 XP for levels 2, 3
  and 4 and stops at level 4 with 99 XP left, short of the 800 that level 5 costs.
\<close>

theorem addXP_invariant_and_cascade:
  "(level (fst (addXP s xp b)) < 100 \<longrightarrow>
      currentXP (fst (addXP s xp b)) < getXPForNextLevel (fst (addXP s xp b)))
   \<and> level (fst (addXP (Skill_new n i t) 1000 0)) = 4
   \<and> currentXP (fst (addXP (Skill_new n i t) 1000 0)) = 99
   \<and> leveledUp (snd (addXP (Skill_new n i t) 1000 0))
   \<and> getXPForNextLevel (fst (addXP (Skill_new n i t) 1000 0)) = 800"
proof -
  have "getXPForNextLevel (fst (addXP (Skill_new n i t) 1000 0)) = 800"
    by (simp add: addXP_1000 getXPForNextLevel_code isqrt_eval)
  then show ?thesis
    using addXP_post [of s xp b] by (simp add: addXP_1000)
qed

theorem addXP_invariant_and_cascade_witness:
  "level (fst (addXP (Skill_new (Some ''Logic'') (Some ''U+1F9E9'') (Some ''logic'')) 150 0)) < 100
   \<and> currentXP (fst (addXP (Skill_new (Some ''Logic'') (Some ''U+1F9E9'') (Some ''logic'')) 150 0))
       < getXPForNextLevel
           (fst (addXP (Skill_new (Some ''Logic'') (Some ''U+1F9E9'') (Some ''logic'')) 150 0))"
  using addXP_invariant_and_cascade
    [of "Skill_new (Some ''Logic'') (Some ''U+1F9E9'') (Some ''logic'')" 150 0]
  by (simp add: addXP_150)

text \<open>
  The claim as stated asks that a level-1 skill awarded 1000 raw XP reach at least
  level 5; it reaches level 4.
\<close>

theorem addXP_1000_reaches_level_5_counterexample:
  "\<not> 5 \<le> level (fst (addXP (Skill_new (Some ''Logic'') (Some ''U+1F9E9'') (Some ''logic'')) 1000 0))"
  by (simp add: addXP_1000)

section \<open>User: streak bonus\<close>

lemma getStreakBonus_ranges:
  "getStreakBonus u =
     (let c = current (streak u)
      in if c < 5 then 0 else if c < 7 then 5 / 100 else if c < 15 then 10 / 100
         else if c < 25 then 15 / 100 else if c < 50 then 20 / 100
         else if c < 100 then 30 / 100 else 50 / 100)"
  by (simp add: getStreakBonus_def STREAK_BONUSES_def Let_def)

text \<open>
  C7. \<^verbatim>\<open>getStreakBonus\<close> returns 0 when no tier of the table qualifies, and otherwise
  the bonus of the qualifying tier (day count at most \<open>streak.current\<close>) with the
  highest day count; the table is 5 to 5%, 7 to 10%, 15 to 15%, 25 to 20%, 50 to 30%,
  100 to 50%; a streak of 7 gives 0.10, not 0.05.
\<close>

theorem getStreakBonus_highest_tier:
  "((\<forall>t \<in> set STREAK_BONUSES. \<not> days t \<le> current (streak u)) \<longrightarrow> getStreakBonus u = 0)
   \<and> (\<forall>t \<in> set STREAK_BONUSES.
         days t \<le> current (streak u)
         \<and> (\<forall>t' \<in> set STREAK_BONUSES. days t' \<le> current (streak u) \<longrightarrow> days t' \<le> days t)
         \<longrightarrow> getStreakBonus u = bonus t)
   \<and> (current (streak u) = 7 \<longrightarrow> getStreakBonus u = 10 / 100 \<and> getStreakBonus u \<noteq> 5 / 100)
   \<and> map (\<lambda>t. (days t, bonus t)) STREAK_BONUSES =
        [(5, 5 / 100), (7, 10 / 100), (15, 15 / 100), (25, 20 / 100), (50, 30 / 100),
         (100, 50 / 100)]"
  by (simp add: getStreakBonus_ranges Let_def) (simp add: STREAK_BONUSES_def)

theorem getStreakBonus_highest_tier_witness:
  "current (streak (streak_user 7 7 (Some 0))) = 7
   \<and> getStreakBonus (streak_user 7 7 (Some 0)) = 10 / 100
   \<and> getStreakBonus (User_new ''Hunter'' 0) = 0"
  using getStreakBonus_highest_tier [of "streak_user 7 7 (Some 0)"]
    getStreakBonus_highest_tier [of "User_new ''Hunter'' 0"]
  by (simp add: User_new_def default_streak_def streak_user_def STREAK_BONUSES_def)

section \<open>User: streak continuity\<close>

text \<open>
  C6. \<^verbatim>\<open>updateStreak\<close>: with no prior completion the current streak becomes 1; when
  the last completion was today it is unchanged; when it was yesterday it is
  incremented; after a gap of two or more days it is reset to 1; and the longest streak
  becomes the maximum of its old value and the new current streak, so it never
  decreases. The call stamps the last completion and returns the current streak.
\<close>

theorem updateStreak_rules:
  "(lastCompleted (streak u) = None \<longrightarrow> current (streak (snd (updateStreak now u))) = 1)
   \<and> (\<forall>t. lastCompleted (streak u) = Some t \<and> toDateString t = toDateString now
          \<longrightarrow> current (streak (snd (updateStreak now u))) = current (streak u))
   \<and> (\<forall>t. lastCompleted (streak u) = Some t \<and> toDateString t = toDateString now - 1
          \<longrightarrow> current (streak (snd (updateStreak now u))) = current (streak u) + 1)
   \<and> (\<forall>t. lastCompleted (streak u) = Some t \<and> toDateString t \<le> toDateString now - 2
          \<longrightarrow> current (streak (snd (updateStreak now u))) = 1)
   \<and> longest (streak (snd (updateStreak now u)))
        = max (longest (streak u)) (current (streak (snd (updateStreak now u))))
   \<and> longest (streak u) \<le> longest (streak (snd (updateStreak now u)))
   \<and> lastCompleted (streak (snd (updateStreak now u))) = Some now
   \<and> fst (updateStreak now u) = current (streak (snd (updateStreak now u)))"
  by (auto simp add: updateStreak_def Let_def split: option.splits)

theorem updateStreak_rules_witness:
  "lastCompleted (streak (User_new ''Hunter'' 0)) = None
   \<and> current (streak (snd (updateStreak 0 (User_new ''Hunter'' 0)))) = 1
   \<and> toDateString (10 * 86400000 + 5) = toDateString (10 * 86400000 + 7000)
   \<and> current (streak (snd (updateStreak (10 * 86400000 + 7000)
         (streak_user 3 4 (Some (10 * 86400000 + 5)))))) = 3
   \<and> toDateString (9 * 86400000 + 5) = toDateString (10 * 86400000 + 7000) - 1
   \<and> current (streak (snd (updateStreak (10 * 86400000 + 7000)
         (streak_user 3 4 (Some (9 * 86400000 + 5)))))) = 4
   \<and> toDateString (8 * 86400000 + 5) \<le> toDateString (10 * 86400000 + 7000) - 2
   \<and> current (streak (snd (updateStreak (10 * 86400000 + 7000)
         (streak_user 3 4 (Some (8 * 86400000 + 5)))))) = 1
   \<and> longest (streak (snd (updateStreak (10 * 86400000 + 7000)
         (streak_user 3 4 (Some (8 * 86400000 + 5)))))) = 4"
  using updateStreak_rules [of "User_new ''Hunter'' 0" 0]
    updateStreak_rules [of "streak_user 3 4 (Some (10 * 86400000 + 5))" "10 * 86400000 + 7000"]
    updateStreak_rules [of "streak_user 3 4 (Some (9 * 86400000 + 5))" "10 * 86400000 + 7000"]
    updateStreak_rules [of "streak_user 3 4 (Some (8 * 86400000 + 5))" "10 * 86400000 + 7000"]
  by (simp add: User_new_def default_streak_def streak_user_def toDateString_def)

section \<open>User: restoring from a snapshot\<close>

lemma User_fromJSON_defaults:
  "json_skills data = Some entries \<Longrightarrow>
     \<exists>user. User_fromJSON now data = Inr user
       \<and> (json_streak data = None \<longrightarrow>
            streak user = \<lparr>current = 0, longest = 0, lastCompleted = None\<rparr>)
       \<and> (json_stats data = None \<longrightarrow>
            stats user = \<lparr>totalRoutinesCompleted = 0, totalTasksCompleted = 0,
                           totalXPEarned = 0, achievements = []\<rparr>)"
  by (simp add: User_fromJSON_def Let_def default_streak_def default_stats_def)

text \<open>
  C4. The claim: \<^verbatim>\<open>User.fromJSON\<close> tolerates every missing field by a default and never
  fails. It does so for \<^verbatim>\<open>streak\<close> and \<^verbatim>\<open>stats\<close> (\<open>User_fromJSON_defaults\<close>) and for the
  numeric fields of a skill, but a snapshot without the key \<^verbatim>\<open>skills\<close> makes
  \<^verbatim>\<open>Object.entries(data.skills)\<close> throw a TypeError, whatever else the snapshot holds.
\<close>

theorem User_fromJSON_missing_skills_throws:
  "User_fromJSON now snapshot_without_skills
     = Inl (TypeError ''Cannot convert undefined or null to object'')
   \<and> User_fromJSON now (data\<lparr>json_skills := None\<rparr>)
     = Inl (TypeError ''Cannot convert undefined or null to object'')"
  by (simp add: User_fromJSON_def Let_def snapshot_without_skills_def)

section \<open>RoutineSession: the XP ledger\<close>










lemma session_after_wake_eq:
  "session_after_wake =
     \<lparr>routineId = ''morning'', date = 1000, startedAt = Some 1000, completedAt = None,
      status = in_progress, completedItems = {''wake''},
      xpEarned = [''discipline'' \<mapsto> 10]\<rparr>"
  by (simp add: session_after_wake_def RoutineSession_completeItem_def RoutineSession_new_def
        example_routine_def Let_def start_def add_rewards_def xp_of_def)




section \<open>RoutineManager: looking a session up\<close>

lemma wf_managerD: "wf_manager m \<Longrightarrow> sessions m k = Some a \<Longrightarrow> a < length (store m)"
  unfolding wf_manager_def by blast

lemma getSession_cached:
  "getRoutine m rid = Some routine \<Longrightarrow>
   sessions m (rid, toDateString (case d of None \<Rightarrow> now | Some t \<Rightarrow> t)) = Some a \<Longrightarrow>
     getSession m rid d now = Inr (a, m)"
  by (simp add: getSession_def Let_def)

lemma getSession_result:
  assumes "getRoutine m rid = Some routine"
  shows "\<exists>a m1. getSession m rid d now = Inr (a, m1)
           \<and> routines m1 = routines m \<and> localStorage m1 = localStorage m
           \<and> (\<forall>i<length (store m). store m1 ! i = store m ! i)
           \<and> (\<forall>k a'. sessions m k = Some a' \<longrightarrow> sessions m1 k = Some a')
           \<and> (wf_manager m \<longrightarrow> wf_manager m1 \<and> a < length (store m1))"
proof -
  define key where "key = (rid, toDateString (case d of None \<Rightarrow> now | Some t \<Rightarrow> t))"
  show ?thesis
  proof (cases "sessions m key")
    case (Some a)
    then have "getSession m rid d now = Inr (a, m)"
      using assms by (simp add: getSession_def Let_def key_def)
    moreover have "wf_manager m \<longrightarrow> a < length (store m)"
      using Some by (auto dest: wf_managerD)
    ultimately show ?thesis by simp
  next
    case None
    define s where
      "s = (case loadSessionLocal m rid d now of
              Some saved \<Rightarrow> RoutineSession_fromJSON saved routine now
            | None \<Rightarrow> RoutineSession_new routine d now)"
    define m1 where
      "m1 = m\<lparr>sessions := (sessions m)(key \<mapsto> length (store m)), store := store m @ [s]\<rparr>"
    have g: "getSession m rid d now = Inr (length (store m), m1)"
      using assms None
      by (simp add: getSession_def Let_def key_def [symmetric] m1_def s_def split: option.splits)
    have "wf_manager m \<longrightarrow> wf_manager m1"
      by (auto simp: wf_manager_def m1_def less_Suc_eq dest: spec)
    moreover have "\<forall>k a'. sessions m k = Some a' \<longrightarrow> sessions m1 k = Some a'"
      using None by (auto simp: m1_def)
    moreover have "\<forall>i<length (store m). store m1 ! i = store m ! i"
      by (simp add: m1_def nth_append)
    ultimately show ?thesis
      unfolding g by (simp add: m1_def)
  qed
qed

lemma saveSession_fields:
  "store (saveSession m rid a now) = store m \<and> routines (saveSession m rid a now) = routines m"
  by (simp add: saveSession_def saveSessionLocal_def Let_def)

section \<open>Uncompleting an item\<close>

lemma RoutineSession_uncompleteItem_frame:
  "status (RoutineSession_uncompleteItem itemId skillRewards s) = status s
   \<and> startedAt (RoutineSession_uncompleteItem itemId skillRewards s) = startedAt s
   \<and> completedAt (RoutineSession_uncompleteItem itemId skillRewards s) = completedAt s
   \<and> routineId (RoutineSession_uncompleteItem itemId skillRewards s) = routineId s
   \<and> date (RoutineSession_uncompleteItem itemId skillRewards s) = date s"
  by (simp add: RoutineSession_uncompleteItem_def Let_def split: option.splits)

lemma RoutineManager_uncompleteItem_store:
  assumes "getSession m rid None now = Inr (a, m1)"
    and "RoutineManager_uncompleteItem now m rid itemId = Inr (res, m2)"
  shows "store m2 = store m1
         \<or> (\<exists>rw. store m2 = (store m1)[a := RoutineSession_uncompleteItem itemId rw (store m1 ! a)])"
  using assms
  by (auto simp: RoutineManager_uncompleteItem_def Let_def saveSession_fields
        split: option.splits)

text \<open>
  C9. \<^verbatim>\<open>uncompleteItem\<close> never changes the status, \<^verbatim>\<open>startedAt\<close> or \<^verbatim>\<open>completedAt\<close> of a
  session (nor its routine id and date), whatever items remain completed: on the
  session itself, and on the session object that \<^verbatim>\<open>RoutineManager.uncompleteItem\<close>
  works on (at address \<open>a\<close>, before in \<open>m1\<close> and after in \<open>m2\<close>).
\<close>

theorem uncompleteItem_keeps_status:
  "status (RoutineSession_uncompleteItem itemId skillRewards s) = status s
   \<and> startedAt (RoutineSession_uncompleteItem itemId skillRewards s) = startedAt s
   \<and> completedAt (RoutineSession_uncompleteItem itemId skillRewards s) = completedAt s
   \<and> (getSession m rid None now = Inr (a, m1)
        \<and> RoutineManager_uncompleteItem now m rid itemId = Inr (res, m2)
      \<longrightarrow> status (store m2 ! a) = status (store m1 ! a)
          \<and> startedAt (store m2 ! a) = startedAt (store m1 ! a)
          \<and> completedAt (store m2 ! a) = completedAt (store m1 ! a))"
proof (intro conjI impI)
  assume h: "getSession m rid None now = Inr (a, m1)
        \<and> RoutineManager_uncompleteItem now m rid itemId = Inr (res, m2)"
  then consider "store m2 = store m1"
    | rw where "store m2 = (store m1)[a := RoutineSession_uncompleteItem itemId rw (store m1 ! a)]"
    using RoutineManager_uncompleteItem_store by blast
  then have "status (store m2 ! a) = status (store m1 ! a)
          \<and> startedAt (store m2 ! a) = startedAt (store m1 ! a)
          \<and> completedAt (store m2 ! a) = completedAt (store m1 ! a)"
  proof cases
    case 1
    then show ?thesis by simp
  next
    case 2
    then show ?thesis
      by (cases "a < length (store m1)")
        (simp_all add: RoutineSession_uncompleteItem_frame list_update_beyond)
  qed
  then show "status (store m2 ! a) = status (store m1 ! a)"
    and "startedAt (store m2 ! a) = startedAt (store m1 ! a)"
    and "completedAt (store m2 ! a) = completedAt (store m1 ! a)"
    by simp_all
qed (simp_all add: RoutineSession_uncompleteItem_frame)

section \<open>Completing an item that the routine does not have\<close>

lemma item_id_locate: "item_id (locate sec item) = item_id item"
  by (simp add: locate_def)

lemma getItem_loop_None_iff:
  "getItem_loop ss itemId = None
     \<longleftrightarrow> itemId \<notin> set (map item_id (concat (map (\<lambda>sec. map (locate sec) (items sec)) ss)))"
proof (induction ss)
  case Nil
  then show ?case by simp
next
  case (Cons sec ss)
  show ?case
  proof (cases "find (\<lambda>i. item_id i = itemId) (items sec)")
    case None
    then have "itemId \<notin> item_id ` set (items sec)"
      by (auto simp: find_None_iff)
    with None Cons.IH show ?thesis
      by (simp add: image_image item_id_locate)
  next
    case (Some item)
    then have "item \<in> set (items sec)" and "item_id item = itemId"
      by (auto simp: find_Some_iff)
    then have "itemId \<in> item_id ` set (items sec)"
      by auto
    with Some show ?thesis
      by (simp add: image_image item_id_locate)
  qed
qed

lemma getItem_None_iff:
  "getItem routine itemId = None \<longleftrightarrow> itemId \<notin> set (map item_id (getAllItems routine))"
  by (simp only: getItem_def getAllItems_def getItem_loop_None_iff)

text \<open>
  C5. \<^verbatim>\<open>getItem\<close> returns \<^verbatim>\<open>null\<close> exactly for the ids that no item of the routine has. For
  a routine the manager knows and an item id that is not the id of any of its items,
  \<^verbatim>\<open>RoutineManager.completeItem\<close> returns \<^verbatim>\<open>null\<close> and leaves the user (skills and
  lifetime stats) as it was: no XP is awarded. The manager is left as the plain lookup
  \<^verbatim>\<open>getSession\<close> leaves it: nothing is persisted, every session object that existed is
  unchanged, and when today's session was already cached the manager is unchanged
  altogether (otherwise the lookup has created today's session, not started).
\<close>

theorem completeItem_unknown_item:
  "(getItem routine itemId = None) = (itemId \<notin> set (map item_id (getAllItems routine)))
   \<and> (getRoutine m rid = Some routine \<and> itemId \<notin> set (map item_id (getAllItems routine))
       \<longrightarrow> (\<exists>a m1. getSession m rid None now = Inr (a, m1)
          \<and> RoutineManager_completeItem now m rid itemId user = Inr (None, m1, user)
          \<and> localStorage m1 = localStorage m
          \<and> (\<forall>i<length (store m). store m1 ! i = store m ! i)
          \<and> (\<forall>k a'. sessions m k = Some a' \<longrightarrow> sessions m1 k = Some a')
          \<and> (sessions m (rid, toDateString now) \<noteq> None \<longrightarrow> m1 = m)))"
proof (intro conjI impI)
  show "(getItem routine itemId = None) = (itemId \<notin> set (map item_id (getAllItems routine)))"
    by (rule getItem_None_iff)
next
  assume h0: "getRoutine m rid = Some routine
    \<and> itemId \<notin> set (map item_id (getAllItems routine))"
  then have h: "getRoutine m rid = Some routine \<and> getItem routine itemId = None"
    by (simp only: getItem_None_iff simp_thms)
  then obtain a m1 where g: "getSession m rid None now = Inr (a, m1)"
    and frame: "localStorage m1 = localStorage m"
      "\<forall>i<length (store m). store m1 ! i = store m ! i"
      "\<forall>k a'. sessions m k = Some a' \<longrightarrow> sessions m1 k = Some a'"
    using getSession_result [where m = m and rid = rid and routine = routine and d = None
        and now = now] by blast
  have "RoutineManager_completeItem now m rid itemId user = Inr (None, m1, user)"
    using h g by (simp add: RoutineManager_completeItem_def)
  moreover have "sessions m (rid, toDateString now) \<noteq> None \<longrightarrow> m1 = m"
    using h g getSession_cached [where m = m and rid = rid and routine = routine and d = None
        and now = now] by auto
  ultimately show "\<exists>a m1. getSession m rid None now = Inr (a, m1)
          \<and> RoutineManager_completeItem now m rid itemId user = Inr (None, m1, user)
          \<and> localStorage m1 = localStorage m
          \<and> (\<forall>i<length (store m). store m1 ! i = store m ! i)
          \<and> (\<forall>k a'. sessions m k = Some a' \<longrightarrow> sessions m1 k = Some a')
          \<and> (sessions m (rid, toDateString now) \<noteq> None \<longrightarrow> m1 = m)"
    using g frame by blast
qed

lemma item_ids_example:
  "map item_id (getAllItems example_routine) = [''wake'', ''stretch'', ''plan'']"
  by (simp add: getAllItems_def example_routine_def locate_def)

lemma getRoutine_after_wake: "getRoutine manager_after_wake ''morning'' = Some example_routine"
  by (simp add: getRoutine_def manager_after_wake_def)

lemma getSession_after_wake:
  "getSession manager_after_wake ''morning'' None 2000 = Inr (0, manager_after_wake)"
  by (rule getSession_cached [OF getRoutine_after_wake])
    (simp add: manager_after_wake_def toDateString_def)

lemma getSession_example:
  "getSession example_manager ''morning'' None 2000 =
     Inr (0, example_manager
               \<lparr>sessions := [(''morning'', 0) \<mapsto> 0],
                store := [RoutineSession_new example_routine None 2000]\<rparr>)"
  by (simp add: getSession_def getRoutine_def loadSessionLocal_def example_manager_def
        toDateString_def Let_def)

theorem completeItem_unknown_item_witness:
  "getRoutine manager_after_wake ''morning'' = Some example_routine
   \<and> getRoutine example_manager ''morning'' = Some example_routine
   \<and> ''snooze'' \<notin> set (map item_id (getAllItems example_routine))
   \<and> getItem example_routine ''snooze'' = None
   \<and> RoutineManager_completeItem 2000 manager_after_wake ''morning'' ''snooze''
        (User_new ''Hunter'' 0)
       = Inr (None, manager_after_wake, User_new ''Hunter'' 0)
   \<and> RoutineManager_completeItem 2000 example_manager ''morning'' ''snooze''
        (User_new ''Hunter'' 0)
       = Inr (None,
              example_manager
                \<lparr>sessions := [(''morning'', 0) \<mapsto> 0],
                 store := [RoutineSession_new example_routine None 2000]\<rparr>,
              User_new ''Hunter'' 0)"
  using completeItem_unknown_item
    [where m = manager_after_wake and rid = "''morning''" and routine = example_routine
       and itemId = "''snooze''" and now = 2000 and user = "User_new ''Hunter'' 0"]
    completeItem_unknown_item
    [where m = example_manager and rid = "''morning''" and routine = example_routine
       and itemId = "''snooze''" and now = 2000 and user = "User_new ''Hunter'' 0"]
  by (simp add: item_ids_example getRoutine_after_wake getSession_after_wake
        getSession_example)
    (simp add: getRoutine_def example_manager_def)

section \<open>Uncompleting an item through the manager\<close>

lemma getItem_example_wake:
  "getItem example_routine ''wake'' =
     Some \<lparr>item_id = ''wake'', item_description = ''Get up'', item_duration = Some 5,
           item_skillRewards = Some [(''discipline'', 10)], item_notes = None,
           sectionId = ''s1'', sectionName = ''Wake up''\<rparr>"
  by (simp add: getItem_def example_routine_def locate_def)

lemma uncompleteItem_wake:
  "RoutineManager_uncompleteItem 2000 manager_after_wake ''morning'' ''wake'' =
     Inr (Some \<lparr>unc_item = the (getItem example_routine ''wake''), unc_session = 0\<rparr>,
          saveSession
            (manager_after_wake
               \<lparr>store := [RoutineSession_uncompleteItem ''wake'' (Some [(''discipline'', 10)])
                            session_after_wake]\<rparr>) ''morning'' 0 2000)"
  by (simp add: RoutineManager_uncompleteItem_def getSession_after_wake getRoutine_after_wake
        getItem_example_wake Let_def)
    (simp add: manager_after_wake_def)

theorem uncompleteItem_keeps_status_witness:
  "getSession manager_after_wake ''morning'' None 2000 = Inr (0, manager_after_wake)
   \<and> \<not> isl (RoutineManager_uncompleteItem 2000 manager_after_wake ''morning'' ''wake'')
   \<and> status (store manager_after_wake ! 0) = in_progress
   \<and> completedItems (store manager_after_wake ! 0) = {''wake''}
   \<and> status (store (snd (projr
         (RoutineManager_uncompleteItem 2000 manager_after_wake ''morning'' ''wake''))) ! 0)
       = in_progress
   \<and> completedItems (store (snd (projr
         (RoutineManager_uncompleteItem 2000 manager_after_wake ''morning'' ''wake''))) ! 0)
       = {}"
  using uncompleteItem_keeps_status
    [where m = manager_after_wake and rid = "''morning''" and now = 2000 and a = 0
       and ?m1.0 = manager_after_wake and itemId = "''wake''"
       and res = "fst (projr (RoutineManager_uncompleteItem 2000 manager_after_wake ''morning'' ''wake''))"
       and ?m2.0 = "snd (projr (RoutineManager_uncompleteItem 2000 manager_after_wake ''morning'' ''wake''))"]
  by (simp add: getSession_after_wake uncompleteItem_wake saveSession_fields)
    (simp add: manager_after_wake_def session_after_wake_eq RoutineSession_uncompleteItem_def)

section \<open>Completing an item that is already completed\<close>




lemma completeRoutine_counters:
  "totalRoutinesCompleted (stats (completeRoutine now u)) = totalRoutinesCompleted (stats u) + 1
   \<and> totalXPEarned (stats (completeRoutine now u)) = totalXPEarned (stats u)
   \<and> totalTasksCompleted (stats (completeRoutine now u)) = totalTasksCompleted (stats u)
   \<and> achievements (stats (completeRoutine now u)) = achievements (stats u)
   \<and> skills (completeRoutine now u) = skills u"
  by (simp add: completeRoutine_def updateStreak_def Let_def)











section \<open>Achievements: what stays true\<close>

lemma skill_le_refl: "skill_le p p"
  by (simp add: skill_le_def)

lemma skill_le_trans: "skill_le p q \<Longrightarrow> skill_le q r \<Longrightarrow> skill_le p r"
  by (auto simp: skill_le_def)

lemma user_le_refl: "user_le u u"
  by (simp add: user_le_def list_all2_refl skill_le_refl)

lemma user_le_trans: "user_le u v \<Longrightarrow> user_le v w \<Longrightarrow> user_le u w"
  unfolding user_le_def
  by (auto elim: list_all2_trans [rotated] intro: skill_le_trans)

lemma addXP_loop_level:
  "addXP_loop s lu nl = (s', r) \<Longrightarrow> level s \<le> level s' \<and> prestige s' = prestige s"
proof (induction s lu nl rule: addXP_loop.induct)
  case (1 s lu nl)
  show ?case
  proof (cases "currentXP s \<ge> getXPForNextLevel s \<and> level s < 100")
    case True
    with "1.prems" have
      "addXP_loop (s\<lparr>currentXP := currentXP s - getXPForNextLevel s, level := level s + 1\<rparr>)
         True (level s + 1) = (s', r)"
      by (subst (asm) addXP_loop.simps) simp
    with True "1.IH" have
      "level (s\<lparr>currentXP := currentXP s - getXPForNextLevel s, level := level s + 1\<rparr>) \<le> level s'
       \<and> prestige s' = prestige (s\<lparr>currentXP := currentXP s - getXPForNextLevel s,
                                      level := level s + 1\<rparr>)"
      by blast
    then show ?thesis by simp
  next
    case False
    with "1.prems" have "s' = s"
      by (subst (asm) addXP_loop.simps) simp
    then show ?thesis by simp
  qed
qed

lemma addXP_level:
  "level s \<le> level (fst (addXP s xp b)) \<and> prestige (fst (addXP s xp b)) = prestige s"
proof -
  define s1 where
    "s1 = s\<lparr>currentXP := currentXP s + \<lfloor>real_of_int xp * (getPrestigeMultiplier s * (1 + b))\<rfloor>,
            totalXP := totalXP s + \<lfloor>real_of_int xp * (getPrestigeMultiplier s * (1 + b))\<rfloor>\<rparr>"
  obtain s' r where L: "addXP_loop s1 False (level s1) = (s', r)"
    by (cases "addXP_loop s1 False (level s1)")
  then have "fst (addXP s xp b) = s'"
    by (simp add: addXP_def Let_def s1_def split: prod.splits)
  with addXP_loop_level [OF L] show ?thesis
    by (simp add: s1_def)
qed

lemma addXP_xpGained:
  "xpGained (snd (addXP s xp b)) = \<lfloor>real_of_int xp * (getPrestigeMultiplier s * (1 + b))\<rfloor>"
  by (simp add: addXP_def Let_def split: prod.splits)

lemma addXP_xpGained_nonneg:
  assumes "0 \<le> xp" and "0 \<le> b"
  shows "0 \<le> xpGained (snd (addXP s xp b))"
proof -
  have "0 \<le> getPrestigeMultiplier s"
    by (simp add: getPrestigeMultiplier_def)
  with assms have "0 \<le> real_of_int xp * (getPrestigeMultiplier s * (1 + b))"
    by simp
  then show ?thesis
    by (simp add: addXP_xpGained)
qed

lemma getStreakBonus_nonneg: "0 \<le> getStreakBonus u"
  by (simp add: getStreakBonus_ranges Let_def)

lemma update_skill_le:
  "map_of xs k = Some s \<Longrightarrow> level s \<le> level s' \<Longrightarrow> prestige s \<le> prestige s' \<Longrightarrow>
     list_all2 skill_le xs (AList.update k s' xs)"
proof (induction xs)
  case Nil
  then show ?case by simp
next
  case (Cons p xs)
  show ?case
  proof (cases "fst p = k")
    case True
    with Cons.prems have "snd p = s" by (cases p) simp
    with True Cons.prems show ?thesis
      by (simp add: skill_le_def list_all2_refl skill_le_refl)
  next
    case False
    with Cons.prems have "map_of xs k = Some s" by (cases p) (simp split: if_splits)
    with False Cons show ?thesis
      by (simp add: skill_le_refl)
  qed
qed

lemma addSkillXP_user_le:
  assumes "0 \<le> xp"
  shows "user_le u (snd (addSkillXP now k xp u))"
proof (cases "map_of (skills u) k")
  case None
  then show ?thesis by (simp add: addSkillXP_def user_le_refl)
next
  case (Some sk)
  obtain sk' r where a: "addXP sk xp (getStreakBonus u) = (sk', r)"
    by (cases "addXP sk xp (getStreakBonus u)")
  from addXP_level [of sk xp "getStreakBonus u"] a
  have lv: "level sk \<le> level sk'" "prestige sk \<le> prestige sk'" by simp_all
  from addXP_xpGained_nonneg [OF assms getStreakBonus_nonneg, of sk u] a
  have g: "0 \<le> xpGained r" by simp
  show ?thesis
    using Some a g update_skill_le [OF Some lv]
    by (simp add: addSkillXP_def Let_def user_le_def)
qed

lemma addRoutineRewards_user_le:
  "list_all (\<lambda>(k, xp). 0 \<le> xp) rewards \<Longrightarrow> user_le u (snd (addRoutineRewards now rewards u))"
proof (induction rewards arbitrary: u)
  case Nil
  then show ?case by (simp add: user_le_refl)
next
  case (Cons p rewards)
  obtain k xp where p: "p = (k, xp)" by (cases p)
  obtain r u1 where a: "addSkillXP now k xp u = (r, u1)" by (cases "addSkillXP now k xp u")
  obtain rs u2 where b: "addRoutineRewards now rewards u1 = (rs, u2)"
    by (cases "addRoutineRewards now rewards u1")
  from Cons.prems p have "0 \<le> xp" and rest: "list_all (\<lambda>(k, xp). 0 \<le> xp) rewards"
    by simp_all
  then have "user_le u u1"
    using addSkillXP_user_le [of xp u now k] a by simp
  moreover have "user_le u1 u2"
    using Cons.IH [OF rest, of u1] b by simp
  ultimately show ?case
    by (simp add: p a b) (rule user_le_trans)
qed

lemma apply_user_op_le: "nonneg_op op \<Longrightarrow> user_le u (apply_user_op op u)"
proof (cases op)
  case (AddSkillXP now k xp)
  moreover assume "nonneg_op op"
  ultimately show ?thesis by (simp add: addSkillXP_user_le)
next
  case (AddRoutineRewards now rewards)
  moreover assume "nonneg_op op"
  ultimately show ?thesis by (simp add: addRoutineRewards_user_le)
qed (simp_all add: user_le_def updateStreak_def completeTask_def completeRoutine_def
      unlockAchievement_def Let_def list_all2_refl skill_le_refl)

lemma fold_user_le: "list_all nonneg_op ops \<Longrightarrow> user_le u (fold apply_user_op ops u)"
proof (induction ops arbitrary: u)
  case Nil
  then show ?case by (simp add: user_le_refl)
next
  case (Cons op ops)
  then have "user_le u (apply_user_op op u)"
    and "user_le (apply_user_op op u) (fold apply_user_op ops (apply_user_op op u))"
    by (simp_all add: apply_user_op_le)
  then show ?case
    by (simp add: user_le_trans)
qed

lemma list_ex_skill_le:
  assumes "list_all2 skill_le xs ys" and "\<And>s s'. f s \<le> f s' \<Longrightarrow> P s \<Longrightarrow> P s'"
    and "\<And>p q. skill_le p q \<Longrightarrow> f (snd p) \<le> f (snd q)"
  shows "list_ex P (map snd xs) \<Longrightarrow> list_ex P (map snd ys)"
  using assms(1)
proof (induction rule: list_all2_induct)
  case Nil
  then show ?case by simp
next
  case (Cons p xs q ys)
  then show ?case
    using assms(2) [OF assms(3) [of p q]] by auto
qed

lemma list_all_skill_le:
  assumes "list_all2 skill_le xs ys" and "\<And>s s'. f s \<le> f s' \<Longrightarrow> P s \<Longrightarrow> P s'"
    and "\<And>p q. skill_le p q \<Longrightarrow> f (snd p) \<le> f (snd q)"
  shows "list_all P (map snd xs) \<Longrightarrow> list_all P (map snd ys)"
  using assms(1)
proof (induction rule: list_all2_induct)
  case Nil
  then show ?case by simp
next
  case (Cons p xs q ys)
  then show ?case
    using assms(2) [OF assms(3) [of p q]] by auto
qed

lemma mono_routines: "monotone_condition (\<lambda>u. n \<le> totalRoutinesCompleted (stats u))"
  by (auto simp: monotone_condition_def user_le_def)

lemma mono_tasks: "monotone_condition (\<lambda>u. n \<le> totalTasksCompleted (stats u))"
  by (auto simp: monotone_condition_def user_le_def)

lemma mono_xp: "monotone_condition (\<lambda>u. n \<le> totalXPEarned (stats u))"
  by (auto simp: monotone_condition_def user_le_def)

lemma mono_any_level:
  "monotone_condition (\<lambda>u. list_ex (\<lambda>s. n \<le> level s) (map snd (skills u)))"
  unfolding monotone_condition_def user_le_def
  by (auto elim!: list_ex_skill_le [where f = level, rotated -1] simp: skill_le_def)

lemma mono_all_level:
  "monotone_condition (\<lambda>u. list_all (\<lambda>s. n \<le> level s) (map snd (skills u)))"
  unfolding monotone_condition_def user_le_def
  by (auto elim!: list_all_skill_le [where f = level, rotated -1] simp: skill_le_def)

lemma mono_any_prestige:
  "monotone_condition (\<lambda>u. list_ex (\<lambda>s. n \<le> prestige s) (map snd (skills u)))"
  unfolding monotone_condition_def user_le_def
  by (auto elim!: list_ex_skill_le [where f = prestige, rotated -1] simp: skill_le_def)

lemmas mono_conditions =
  mono_routines mono_tasks mono_xp mono_any_level mono_all_level mono_any_prestige

lemma catalog_monotone:
  "list_all (\<lambda>d. is_streak_id (ach_id d) \<or> monotone_condition (condition d)) ACHIEVEMENTS"
  by (simp add: ACHIEVEMENTS_def mono_conditions is_streak_id_def)

section \<open>Achievements: unlocked once\<close>

lemma set_update_cases:
  "p \<in> set (AList.update k v al) \<Longrightarrow> p = (k, v) \<or> p \<in> set al"
  by (induction al) (auto split: if_splits)

lemma set_update_same: "(k, v) \<in> set (AList.update k v al)"
  by (induction al) auto

lemma set_update_other: "fst p \<noteq> k \<Longrightarrow> p \<in> set al \<Longrightarrow> p \<in> set (AList.update k v al)"
  by (induction al) auto

lemma am_inv_update: "am_inv am \<Longrightarrow> ach_id a = k \<Longrightarrow> am_inv (AList.update k a am)"
  unfolding am_inv_def
  by (auto simp: AList.distinct_update dest!: set_update_cases)

lemma unlocked_ids_update:
  "isUnlocked a \<Longrightarrow> unlocked_ids am \<subseteq> unlocked_ids (AList.update k a am)"
proof
  fix i
  assume u: "isUnlocked a" and "i \<in> unlocked_ids am"
  then obtain b where b: "(i, b) \<in> set am" "isUnlocked b"
    by (auto simp: unlocked_ids_def)
  show "i \<in> unlocked_ids (AList.update k a am)"
  proof (cases "i = k")
    case True
    have "(k, a) \<in> {p \<in> set (AList.update k a am). isUnlocked (snd p)}"
      using u by (simp add: set_update_same)
    then have "fst (k, a) \<in> unlocked_ids (AList.update k a am)"
      unfolding unlocked_ids_def by (rule imageI)
    with True show ?thesis by simp
  next
    case False
    with b have "(i, b) \<in> {p \<in> set (AList.update k a am). isUnlocked (snd p)}"
      by (simp add: set_update_other)
    then have "fst (i, b) \<in> unlocked_ids (AList.update k a am)"
      unfolding unlocked_ids_def by (rule imageI)
    then show ?thesis by simp
  qed
qed

lemma am_inv_initial: "am_inv initializeAchievements"
proof -
  have gen: "am_inv am \<Longrightarrow>
      am_inv (fold (\<lambda>data. AList.update (ach_id data) (Achievement_new data)) ds am)" for ds am
    by (induction ds arbitrary: am) (simp_all add: am_inv_update Achievement_new_def)
  have "am_inv []"
    by (simp add: am_inv_def)
  from gen [OF this] show ?thesis
    by (simp add: initializeAchievements_def)
qed

lemma unlocked_ids_Cons:
  "unlocked_ids ((k, a) # am) = (if isUnlocked a then insert k (unlocked_ids am) else unlocked_ids am)"
  by (force simp: unlocked_ids_def image_iff)

lemma unlocked_ids_keys: "unlocked_ids am \<subseteq> set (map fst am)"
  by (auto simp: unlocked_ids_def)

lemma checkAchievements_result:
  "am_inv am \<Longrightarrow> checkAchievements now am u = (new, am', u') \<Longrightarrow>
     map fst am' = map fst am \<and> am_inv am'
     \<and> unlocked_ids am \<subseteq> unlocked_ids am'
     \<and> set (map ach_id new) \<subseteq> unlocked_ids am'
     \<and> set (map ach_id new) \<inter> unlocked_ids am = {}
     \<and> set (map ach_id new) \<subseteq> set (map fst am)
     \<and> distinct (map ach_id new)"
proof (induction am arbitrary: u new am' u')
  case Nil
  then show ?case by (simp add: unlocked_ids_def)
next
  case (Cons p am)
  obtain k a where p: "p = (k, a)" by (cases p)
  from Cons.prems(1) p have inv: "am_inv am" and ka: "ach_id a = k" and fresh: "k \<notin> set (map fst am)"
    by (auto simp: am_inv_def)
  define u1 where
    "u1 = (if \<not> isUnlocked a \<and> condition a u
           then snd (unlockAchievement (ach_id (snd (unlock now a))) u) else u)"
  obtain n r u2 where rec: "checkAchievements now am u1 = (n, r, u2)"
    by (cases "checkAchievements now am u1") auto
  note IH = Cons.IH [OF inv rec]
  have kr: "k \<notin> set (map fst r)" and kn: "k \<notin> set (map ach_id n)"
    and ku: "k \<notin> unlocked_ids am" and ku': "k \<notin> unlocked_ids r"
    using IH fresh unlocked_ids_keys [of am] unlocked_ids_keys [of r] by auto
  show ?case
  proof (cases "\<not> isUnlocked a \<and> condition a u")
    case True
    define a' where "a' = snd (unlock now a)"
    have a': "isUnlocked a'" "ach_id a' = k"
      using True ka by (simp_all add: a'_def unlock_def isUnlocked_def)
    from Cons.prems(2) True rec have res: "new = a' # n" "am' = (k, a') # r"
      by (simp_all add: p u1_def a'_def Let_def)
    have "am_inv am'"
      using IH kr a' inv by (simp add: res am_inv_def)
    then show ?thesis
      using IH True a' kn ku by (auto simp: res p unlocked_ids_Cons)
  next
    case False
    from Cons.prems(2) False rec have res: "new = n" "am' = (k, a) # r"
      by (auto simp: p u1_def Let_def split: if_splits)
    have "am_inv am'"
      using IH kr ka inv by (simp add: res am_inv_def)
    then show ?thesis
      using IH False kn ku ku' by (auto simp: res p unlocked_ids_Cons)
  qed
qed

lemma restoreUnlocked_result:
  "am_inv am \<Longrightarrow>
     am_inv (restoreUnlocked now ids am) \<and> unlocked_ids am \<subseteq> unlocked_ids (restoreUnlocked now ids am)"
proof (induction ids arbitrary: am)
  case Nil
  then show ?case by (simp add: restoreUnlocked_def)
next
  case (Cons i ids)
  define am1 where
    "am1 = (case map_of am i of
              Some achievement \<Rightarrow>
                if \<not> isUnlocked achievement
                then AList.update i (snd (unlock now achievement)) am else am
            | None \<Rightarrow> am)"
  have step: "restoreUnlocked now (i # ids) am = restoreUnlocked now ids am1"
    by (simp add: restoreUnlocked_def am1_def)
  have "am_inv am1 \<and> unlocked_ids am \<subseteq> unlocked_ids am1"
  proof (cases "map_of am i")
    case None
    with Cons.prems show ?thesis by (simp add: am1_def)
  next
    case (Some a)
    then have "(i, a) \<in> set am" by (rule map_of_SomeD)
    with Cons.prems have "ach_id a = i" by (auto simp: am_inv_def)
    then have "ach_id (snd (unlock now a)) = i" "\<not> isUnlocked a \<Longrightarrow> isUnlocked (snd (unlock now a))"
      by (simp_all add: unlock_def isUnlocked_def)
    with Cons.prems Some show ?thesis
      by (auto simp: am1_def am_inv_update dest: unlocked_ids_update [THEN subsetD])
  qed
  with Cons.IH [of am1] show ?case
    unfolding step by blast
qed

lemma apply_manager_op_result:
  "am_inv am \<Longrightarrow>
     am_inv (apply_manager_op op am) \<and> unlocked_ids am \<subseteq> unlocked_ids (apply_manager_op op am)"
proof (cases op)
  case (Check now user)
  assume inv: "am_inv am"
  obtain n r u where c: "checkAchievements now am user = (n, r, u)"
    by (cases "checkAchievements now am user") auto
  from checkAchievements_result [OF inv c] show ?thesis
    by (simp add: Check c)
next
  case (Restore now ids)
  assume "am_inv am"
  then show ?thesis
    by (simp add: Restore restoreUnlocked_result)
qed

lemma fold_manager_op_result:
  "am_inv am \<Longrightarrow>
     am_inv (fold apply_manager_op ops am)
     \<and> unlocked_ids am \<subseteq> unlocked_ids (fold apply_manager_op ops am)"
proof (induction ops arbitrary: am)
  case Nil
  then show ?case by simp
next
  case (Cons op ops)
  from apply_manager_op_result [OF Cons.prems, of op] Cons.IH [of "apply_manager_op op am"]
  show ?case by auto
qed

lemma checkAchievements_one_shot:
  assumes "checkAchievements t1 (fold apply_manager_op ops1 initializeAchievements) u1
             = (new1, am2, u1')"
    and "checkAchievements t2 (fold apply_manager_op ops2 am2) u2 = (new2, am4, u2')"
  shows "set (map ach_id new1) \<inter> set (map ach_id new2) = {}
         \<and> distinct (map ach_id new1) \<and> distinct (map ach_id new2)"
proof -
  have inv1: "am_inv (fold apply_manager_op ops1 initializeAchievements)"
    using fold_manager_op_result [OF am_inv_initial] by simp
  note r1 = checkAchievements_result [OF inv1 assms(1)]
  then have inv2: "am_inv am2" by simp
  note f2 = fold_manager_op_result [OF inv2, of ops2]
  then have inv3: "am_inv (fold apply_manager_op ops2 am2)" by simp
  note r2 = checkAchievements_result [OF inv3 assms(2)]
  have "set (map ach_id new1) \<subseteq> unlocked_ids (fold apply_manager_op ops2 am2)"
    using r1 f2 by blast
  with r1 r2 show ?thesis by blast
qed

section \<open>Achievements: the claim\<close>

text \<open>
  C3, as amended. Every catalog achievement other than the streak achievements (the
  routine-count, task-count, XP, skill-level and prestige thresholds) stays true, once
  true, along every sequence of calls of the mutating methods of \<^verbatim>\<open>User\<close> that award no
  negative XP; and \<^verbatim>\<open>checkAchievements\<close> of one manager never returns an achievement id
  as newly unlocked in two calls, nor twice in one call, whatever calls of
  \<^verbatim>\<open>checkAchievements\<close> and \<^verbatim>\<open>restoreUnlocked\<close> come before and between. The streak
  achievements read \<^verbatim>\<open>streak.current\<close>, which \<^verbatim>\<open>updateStreak\<close> resets to 1 after a gap,
  and a negative award lowers \<^verbatim>\<open>totalXPEarned\<close>. Nothing is said here of
  \<^verbatim>\<open>Skill.prestige()\<close>, which is not a method of \<^verbatim>\<open>User\<close>.
\<close>

theorem achievements_monotone_and_one_shot:
  "(d \<in> set ACHIEVEMENTS \<and> \<not> is_streak_id (ach_id d) \<and> list_all nonneg_op ops \<and> condition d u
      \<longrightarrow> condition d (fold apply_user_op ops u))
   \<and> (checkAchievements t1 (fold apply_manager_op ops1 initializeAchievements) u1
         = (new1, am2, u1')
       \<and> checkAchievements t2 (fold apply_manager_op ops2 am2) u2 = (new2, am4, u2')
      \<longrightarrow> set (map ach_id new1) \<inter> set (map ach_id new2) = {}
          \<and> distinct (map ach_id new1) \<and> distinct (map ach_id new2))"
proof (intro conjI impI)
  assume h: "d \<in> set ACHIEVEMENTS \<and> \<not> is_streak_id (ach_id d) \<and> list_all nonneg_op ops
    \<and> condition d u"
  with catalog_monotone have "monotone_condition (condition d)"
    by (auto simp: list_all_iff)
  moreover from h have "user_le u (fold apply_user_op ops u)"
    by (simp add: fold_user_le)
  ultimately show "condition d (fold apply_user_op ops u)"
    using h unfolding monotone_condition_def by blast
next
  assume h: "checkAchievements t1 (fold apply_manager_op ops1 initializeAchievements) u1
         = (new1, am2, u1')
       \<and> checkAchievements t2 (fold apply_manager_op ops2 am2) u2 = (new2, am4, u2')"
  then have "set (map ach_id new1) \<inter> set (map ach_id new2) = {}
         \<and> distinct (map ach_id new1) \<and> distinct (map ach_id new2)"
    using checkAchievements_one_shot by blast
  then show "set (map ach_id new1) \<inter> set (map ach_id new2) = {}"
    and "distinct (map ach_id new1)" and "distinct (map ach_id new2)"
    by simp_all
qed

lemma completeRoutine_streak_first:
  "lastCompleted (streak u) = None \<Longrightarrow>
     streak (completeRoutine now u)
       = \<lparr>current = 1, longest = max (longest (streak u)) 1, lastCompleted = Some now\<rparr>"
  by (simp add: completeRoutine_def updateStreak_def Let_def max_def)

lemma completeRoutine_streak_next_day:
  "lastCompleted (streak u) = Some t \<Longrightarrow> toDateString t = toDateString now - 1 \<Longrightarrow>
     streak (completeRoutine now u)
       = \<lparr>current = current (streak u) + 1,
          longest = max (longest (streak u)) (current (streak u) + 1),
          lastCompleted = Some now\<rparr>"
  by (simp add: completeRoutine_def updateStreak_def Let_def max_def)

lemma completeRoutine_streak_gap:
  "lastCompleted (streak u) = Some t \<Longrightarrow> toDateString t < toDateString now - 1 \<Longrightarrow>
     streak (completeRoutine now u)
       = \<lparr>current = 1, longest = max (longest (streak u)) 1, lastCompleted = Some now\<rparr>"
  by (simp add: completeRoutine_def updateStreak_def Let_def max_def)

lemma five_day_streak:
  "streak five_day_user = \<lparr>current = 5, longest = 5, lastCompleted = Some (4 * 86400000 + 1000)\<rparr>"
proof -
  define u0 where "u0 = User_new ''Hunter'' 0"
  define u1 where "u1 = completeRoutine 1000 u0"
  define u2 where "u2 = completeRoutine (86400000 + 1000) u1"
  define u3 where "u3 = completeRoutine (2 * 86400000 + 1000) u2"
  define u4 where "u4 = completeRoutine (3 * 86400000 + 1000) u3"
  have "lastCompleted (streak u0) = None" "longest (streak u0) = 0"
    by (simp_all add: u0_def User_new_def default_streak_def)
  then have s1: "streak u1 = \<lparr>current = 1, longest = 1, lastCompleted = Some 1000\<rparr>"
    unfolding u1_def by (simp add: completeRoutine_streak_first)
  have s2: "streak u2 = \<lparr>current = 2, longest = 2, lastCompleted = Some (86400000 + 1000)\<rparr>"
    unfolding u2_def
    by (subst completeRoutine_streak_next_day [where t = 1000])
      (simp_all add: s1 toDateString_def)
  have s3: "streak u3 = \<lparr>current = 3, longest = 3, lastCompleted = Some (2 * 86400000 + 1000)\<rparr>"
    unfolding u3_def
    by (subst completeRoutine_streak_next_day [where t = "86400000 + 1000"])
      (simp_all add: s2 toDateString_def)
  have s4: "streak u4 = \<lparr>current = 4, longest = 4, lastCompleted = Some (3 * 86400000 + 1000)\<rparr>"
    unfolding u4_def
    by (subst completeRoutine_streak_next_day [where t = "2 * 86400000 + 1000"])
      (simp_all add: s3 toDateString_def)
  have "streak (completeRoutine (4 * 86400000 + 1000) u4)
      = \<lparr>current = 5, longest = 5, lastCompleted = Some (4 * 86400000 + 1000)\<rparr>"
    by (subst completeRoutine_streak_next_day [where t = "3 * 86400000 + 1000"])
      (simp_all add: s4 toDateString_def)
  moreover have "five_day_user = completeRoutine (4 * 86400000 + 1000) u4"
    by (simp add: five_day_user_def u4_def u3_def u2_def u1_def u0_def)
  ultimately show ?thesis by simp
qed

lemma streak_5_entry:
  "ach_id (ACHIEVEMENTS ! 2) = ''streak-5''
   \<and> condition (ACHIEVEMENTS ! 2) = (\<lambda>user. 5 \<le> current (streak user))"
  by (simp add: ACHIEVEMENTS_def)

lemma first_routine_entry:
  "ach_id (ACHIEVEMENTS ! 0) = ''first-routine''
   \<and> condition (ACHIEVEMENTS ! 0) = (\<lambda>user. 1 \<le> totalRoutinesCompleted (stats user))"
  by (simp add: ACHIEVEMENTS_def)

lemma first_routine_member: "ACHIEVEMENTS ! 0 \<in> set ACHIEVEMENTS"
  by (rule nth_mem) (simp add: ACHIEVEMENTS_def)

lemma five_day_routines: "totalRoutinesCompleted (stats five_day_user) = 5"
  by (simp add: five_day_user_def completeRoutine_counters User_new_def default_stats_def)

theorem achievements_monotone_and_one_shot_witness:
  "ACHIEVEMENTS ! 0 \<in> set ACHIEVEMENTS
   \<and> \<not> is_streak_id (ach_id (ACHIEVEMENTS ! 0))
   \<and> list_all nonneg_op
        [CompleteTask 6000, AddSkillXP 7000 ''logic'' 150,
         CompleteRoutine (20 * 86400000), UnlockAchievement ''first-routine'']
   \<and> condition (ACHIEVEMENTS ! 0) five_day_user
   \<and> condition (ACHIEVEMENTS ! 0)
        (fold apply_user_op
           [CompleteTask 6000, AddSkillXP 7000 ''logic'' 150,
            CompleteRoutine (20 * 86400000), UnlockAchievement ''first-routine'']
           five_day_user)
   \<and> set (map ach_id (fst (checkAchievements 5000 initializeAchievements five_day_user)))
       \<inter> set (map ach_id (fst (checkAchievements 9000
             (fst (snd (checkAchievements 5000 initializeAchievements five_day_user)))
             five_day_user))) = {}"
  using achievements_monotone_and_one_shot
    [where d = "ACHIEVEMENTS ! 0" and u = five_day_user
       and ops = "[CompleteTask 6000, AddSkillXP 7000 ''logic'' 150,
                   CompleteRoutine (20 * 86400000), UnlockAchievement ''first-routine'']"
       and ?t1.0 = 5000 and ?ops1.0 = "[]" and ?u1.0 = five_day_user
       and ?new1.0 = "fst (checkAchievements 5000 initializeAchievements five_day_user)"
       and ?am2.0 = "fst (snd (checkAchievements 5000 initializeAchievements five_day_user))"
       and ?u1' = "snd (snd (checkAchievements 5000 initializeAchievements five_day_user))"
       and ?t2.0 = 9000 and ?ops2.0 = "[]" and ?u2.0 = five_day_user
       and ?new2.0 = "fst (checkAchievements 9000
             (fst (snd (checkAchievements 5000 initializeAchievements five_day_user)))
             five_day_user)"
       and ?am4.0 = "fst (snd (checkAchievements 9000
             (fst (snd (checkAchievements 5000 initializeAchievements five_day_user)))
             five_day_user))"
       and ?u2' = "snd (snd (checkAchievements 9000
             (fst (snd (checkAchievements 5000 initializeAchievements five_day_user)))
             five_day_user))"]
    first_routine_member
  by (simp add: first_routine_entry five_day_routines is_streak_id_def
        del: apply_user_op.simps)

lemma addSkillXP_totalXPEarned:
  "map_of (skills u) k = Some sk \<Longrightarrow>
     totalXPEarned (stats (snd (addSkillXP now k xp u)))
       = totalXPEarned (stats u)
         + \<lfloor>real_of_int xp * (getPrestigeMultiplier sk * (1 + getStreakBonus u))\<rfloor>
     \<and> map_of (skills (snd (addSkillXP now k xp u))) k
         = Some (fst (addXP sk xp (getStreakBonus u)))
     \<and> streak (snd (addSkillXP now k xp u)) = streak u"
proof -
  assume m: "map_of (skills u) k = Some sk"
  obtain sk' r where a: "addXP sk xp (getStreakBonus u) = (sk', r)"
    by (cases "addXP sk xp (getStreakBonus u)")
  with addXP_xpGained [of sk xp "getStreakBonus u"]
  have "xpGained r = \<lfloor>real_of_int xp * (getPrestigeMultiplier sk * (1 + getStreakBonus u))\<rfloor>"
    by simp
  then show ?thesis
    by (simp add: addSkillXP_def Let_def AList.update_conv' m a)
qed

lemma xp_1000_entry:
  "ach_id (ACHIEVEMENTS ! 22) = ''xp-1000''
   \<and> condition (ACHIEVEMENTS ! 22) = (\<lambda>user. 1000 \<le> totalXPEarned (stats user))"
  by (simp add: ACHIEVEMENTS_def)

lemma xp_1000_user_facts:
  "totalXPEarned (stats xp_1000_user) = 1000
   \<and> (\<exists>sk. map_of (skills xp_1000_user) ''logic'' = Some sk \<and> prestige sk = 0)
   \<and> current (streak xp_1000_user) = 0"
proof -
  define sk0 where "sk0 = Skill_new (Some ''Logic'') (Some ''U+1F9E9'') (Some ''logic'')"
  have m: "map_of (skills (User_new ''Hunter'' 0)) ''logic'' = Some sk0"
    by (simp add: User_new_def sk0_def)
  have b: "getStreakBonus (User_new ''Hunter'' 0) = 0"
    by (simp add: getStreakBonus_ranges User_new_def default_streak_def)
  have p: "getPrestigeMultiplier sk0 = 1"
    by (simp add: getPrestigeMultiplier_def sk0_def Skill_new_def)
  have z: "totalXPEarned (stats (User_new ''Hunter'' 0)) = 0"
    "current (streak (User_new ''Hunter'' 0)) = 0"
    by (simp_all add: User_new_def default_stats_def default_streak_def)
  have "prestige (fst (addXP sk0 1000 0)) = 0"
    using addXP_level [of sk0 1000 0] by (simp add: sk0_def Skill_new_def)
  then show ?thesis
    using addSkillXP_totalXPEarned [OF m, of 7000 1000]
    by (simp add: xp_1000_user_def b p z)
qed

text \<open>
  The claim as stated fails for the streak achievements: after five consecutive days
  \<^verbatim>\<open>streak-5\<close> holds, and the next completion, two days later, resets the streak to 1.
  And it fails where an award is negative: \<^verbatim>\<open>xp-1000\<close> holds after 1000 XP and no
  longer after an award of -1.
\<close>

theorem streak_achievement_counterexample:
  "ach_id (ACHIEVEMENTS ! 2) = ''streak-5''
   \<and> condition (ACHIEVEMENTS ! 2) five_day_user
   \<and> \<not> condition (ACHIEVEMENTS ! 2)
        (apply_user_op (CompleteRoutine (6 * 86400000 + 1000)) five_day_user)
   \<and> ach_id (ACHIEVEMENTS ! 22) = ''xp-1000''
   \<and> condition (ACHIEVEMENTS ! 22) xp_1000_user
   \<and> \<not> condition (ACHIEVEMENTS ! 22)
        (apply_user_op (AddSkillXP 8000 ''logic'' (- 1)) xp_1000_user)"
proof -
  have "streak (completeRoutine (6 * 86400000 + 1000) five_day_user)
      = \<lparr>current = 1, longest = 5, lastCompleted = Some (6 * 86400000 + 1000)\<rparr>"
    by (subst completeRoutine_streak_gap [where t = "4 * 86400000 + 1000"])
      (simp_all add: five_day_streak toDateString_def)
  then have streak_part: "condition (ACHIEVEMENTS ! 2) five_day_user
      \<and> \<not> condition (ACHIEVEMENTS ! 2)
           (apply_user_op (CompleteRoutine (6 * 86400000 + 1000)) five_day_user)"
    by (simp add: streak_5_entry five_day_streak)
  obtain sk where sk: "map_of (skills xp_1000_user) ''logic'' = Some sk" "prestige sk = 0"
    using xp_1000_user_facts by blast
  have "getStreakBonus xp_1000_user = 0"
    using xp_1000_user_facts by (simp add: getStreakBonus_ranges)
  moreover have "getPrestigeMultiplier sk = 1"
    by (simp add: getPrestigeMultiplier_def sk)
  moreover have "\<lfloor>- 1 :: real\<rfloor> = - 1"
    by (simp add: floor_eq_iff)
  ultimately have "totalXPEarned (stats (snd (addSkillXP 8000 ''logic'' (- 1) xp_1000_user))) = 999"
    using addSkillXP_totalXPEarned [OF sk(1), of 8000 "- 1"] xp_1000_user_facts by simp
  then have xp_part: "condition (ACHIEVEMENTS ! 22) xp_1000_user
      \<and> \<not> condition (ACHIEVEMENTS ! 22)
           (apply_user_op (AddSkillXP 8000 ''logic'' (- 1)) xp_1000_user)"
    using xp_1000_user_facts by (simp add: xp_1000_entry)
  show ?thesis
    using streak_part xp_part by (simp add: streak_5_entry xp_1000_entry)
qed

end
